theory Spec2Isabelle
  imports Complex_Main "HOL-Library.AList"
begin

section \<open>Groundnut leaf-disease services: a shallow embedding\<close>

text \<open>
  The repository holds two independent Flask services and two scripts:
  \<^item> \<^verbatim>\<open>final year project/test2_0.py\<close>: the ViT service (suffix \<open>_vit\<close> below);
  \<^item> \<^verbatim>\<open>nuuuttsss.py\<close>: the Keras service (suffix \<open>_keras\<close> below);
  \<^item> \<^verbatim>\<open>final year project/modelinfo.py\<close>: the benchmark script with \<open>load_model\<close>;
  \<^item> \<^verbatim>\<open>final year project/vitmodel.py\<close>: the training script.
  Both services define functions of the same name, so every definition carries the suffix
  of its file. Python floats are modelled as \<open>real\<close>; Python strings as \<open>string\<close>, a
  character outside ASCII being written as its UTF-8 bytes.
\<close>

subsection \<open>Python strings\<close>

definition ascii_upper :: string where
  "ascii_upper = ''ABCDEFGHIJKLMNOPQRSTUVWXYZ''"

definition ascii_lower :: string where
  "ascii_lower = ''abcdefghijklmnopqrstuvwxyz''"

text \<open>\<^verbatim>\<open>str.lower()\<close> on the ASCII letters; every other byte is left as it is.\<close>

definition lower_char :: "char \<Rightarrow> char" where
  "lower_char c = (case map_of (zip ascii_upper ascii_lower) c of Some l \<Rightarrow> l | None \<Rightarrow> c)"

definition lower :: "string \<Rightarrow> string" where
  "lower s = map lower_char s"

text \<open>\<^verbatim>\<open>s.rsplit('.', 1)[1]\<close> for a string that contains a dot: what follows the last dot.\<close>

definition after_last_dot :: "string \<Rightarrow> string" where
  "after_last_dot s = rev (takeWhile (\<lambda>c. c \<noteq> CHR ''.'') (rev s))"

text \<open>\<^verbatim>\<open>s.startswith(p)\<close> and \<^verbatim>\<open>p in s\<close> on strings.\<close>

definition startswith :: "string \<Rightarrow> string \<Rightarrow> bool" where
  "startswith s p \<longleftrightarrow> take (length p) s = p"

fun contains_str :: "string \<Rightarrow> string \<Rightarrow> bool" where
  "contains_str p [] = (p = [])"
| "contains_str p (c # cs) = (startswith (c # cs) p \<or> contains_str p cs)"

definition em_dash :: string where
  "em_dash = [CHR 0xE2, CHR 0x80, CHR 0x94]"

definition en_dash :: string where
  "en_dash = [CHR 0xE2, CHR 0x80, CHR 0x93]"

definition degree_sign :: string where
  "degree_sign = [CHR 0xC2, CHR 0xB0]"

subsection \<open>The disease knowledge base\<close>

text \<open>
  Every entry of both \<^verbatim>\<open>DISEASE_INFO\<close> dictionaries has the same five keys, so an entry is
  a record; the dictionary itself is an association list in source order.
\<close>

record disease_record =
  name :: string
  causes :: "string list"
  cure :: "string list"
  prevention :: "string list"
  weather_alerts :: "(string \<times> string) list"

text \<open>test2\_0.py, lines 21--24.\<close>

definition CLASS_NAMES :: "string list" where
  "CLASS_NAMES =
    [''ALTERNARIA LEAF SPOT'', ''ROSETTE'', ''early_leaf_spot_1'', ''early_rust_1'',
     ''healthy_leaf_1'', ''late_leaf_spot_1'', ''nutrition_deficiency_1'', ''rust_1'']"

text \<open>nuuuttsss.py, lines 16--23.\<close>

definition CLASSES :: "string list" where
  "CLASSES =
    [''early_rust_1'',
     ''late_leaf_spot_1'',
     ''nutrition_deficiency_1'',
     ''healthy_leaf_1'',
     ''early_leaf_spot_1'',
     ''rust_1'']"

text \<open>test2\_0.py, lines 44--131.\<close>

definition DISEASE_INFO_vit :: "(string \<times> disease_record) list" where
  "DISEASE_INFO_vit =
    [(''ALTERNARIA LEAF SPOT'',
      \<lparr>name = ''Alternaria Leaf Spot'',
       causes = [''Caused by Alternaria spp. (e.g., A. alternata)'',
                 ''Favored by warm, humid conditions'',
                 ''Spread by wind and rain splash'',
                 ''Infected debris sustains inoculum''],
       cure = [''Apply Mancozeb, Chlorothalonil, or Copper oxychloride'',
               ''Remove and destroy infected leaves'',
               ''Rotate fungicides to avoid resistance''],
       prevention = [''Use resistant varieties'',
                     ''Crop rotation and field sanitation'',
                     ''Avoid overhead irrigation'',
                     ''Ensure good airflow''],
       weather_alerts =
         [(''high_humidity'', ''High humidity increases Alternaria risk. Monitor closely.'')]\<rparr>),
     (''ROSETTE'',
      \<lparr>name = ''Groundnut Rosette Disease'',
       causes = [''Caused by Groundnut Rosette Virus (GRV) + satellite RNA'',
                 ''Transmitted by aphids (Aphis craccivora)'',
                 ''Stressed plants more susceptible''],
       cure = [''No cure '' @ em_dash @ '' remove and destroy infected plants'',
               ''Control aphids with Imidacloprid or botanical sprays''],
       prevention = [''Use certified virus-free seeds'',
                     ''Plant resistant varieties'',
                     ''Early planting to avoid peak aphid season'',
                     ''Integrated pest management (IPM)''],
       weather_alerts =
         [(''aphid_risk'',
           ''Warm, dry conditions favor aphid migration '' @ em_dash @ '' monitor vectors.'')]\<rparr>),
     (''early_leaf_spot_1'',
      \<lparr>name = ''Early Leaf Spot'',
       causes = [''High humidity'', ''Warm temperatures'', ''Poor airflow'', ''Infected residues''],
       cure = [''Copper fungicides'', ''Propiconazole 25% EC'', ''Remove infected leaves''],
       prevention = [''Resistant varieties'', ''Drip irrigation'', ''Wider spacing''],
       weather_alerts =
         [(''high_humidity'',
           ''High humidity promotes leaf spot '' @ em_dash @ '' use drip irrigation.'')]\<rparr>),
     (''early_rust_1'',
      \<lparr>name = ''Early Rust'',
       causes = [''20'' @ en_dash @ ''25'' @ degree_sign @ ''C + high humidity'',
                 ''Dew/rain'', ''Wind-borne spores''],
       cure = [''Triadimefon 25% WP'', ''Hexaconazole 5% SC'', ''Remove infected leaves''],
       prevention = [''Resistant varieties'', ''Balanced nutrition'', ''Early monitoring''],
       weather_alerts =
         [(''high_humidity'', ''Rust risk rising '' @ em_dash @ '' increase scouting.'')]\<rparr>),
     (''healthy_leaf_1'',
      \<lparr>name = ''Healthy Leaf'',
       causes = [''Optimal conditions'', ''Balanced nutrition'', ''Good management''],
       cure = [''Continue best practices'', ''Regular monitoring''],
       prevention = [''High-quality seeds'', ''Crop rotation'', ''Avoid over-irrigation''],
       weather_alerts =
         [(''high_humidity'', ''Healthy now, but watch for fungal risks in humidity.'')]\<rparr>),
     (''late_leaf_spot_1'',
      \<lparr>name = ''Late Leaf Spot'',
       causes = [''>85% humidity'', ''20'' @ en_dash @ ''25'' @ degree_sign @ ''C'',
                 ''Prolonged leaf wetness''],
       cure = [''Chlorothalonil 75% WP'', ''Tebuconazole + Sulphur'', ''Alternate fungicides''],
       prevention = [''Resistant cultivars'', ''Morning irrigation'', ''Remove debris''],
       weather_alerts =
         [(''high_humidity'',
           ''Late leaf spot risk high '' @ em_dash @ '' avoid overhead watering.'')]\<rparr>),
     (''nutrition_deficiency_1'',
      \<lparr>name = ''Nutritional Deficiency'',
       causes = [''Imbalanced fertilization'', ''Soil pH issues'', ''Poor organic matter''],
       cure = [''Soil test'', ''Correct fertilizers'', ''Foliar sprays''],
       prevention = [''Maintain soil pH'', ''Add compost'', ''Follow fertilizer schedule''],
       weather_alerts =
         [(''high_rain'', ''Heavy rain may leach nutrients '' @ em_dash @ '' test soil.'')]\<rparr>),
     (''rust_1'',
      \<lparr>name = ''Advanced Rust'',
       causes = [''Untreated early rust'', ''Persistent humidity'', ''Delayed action''],
       cure = [''Propiconazole 25% EC'', ''Systemic + contact mix'', ''Frequent sprays''],
       prevention = [''Early detection'', ''Monitor weather'', ''Maintain plant health''],
       weather_alerts =
         [(''high_humidity'',
           ''Advanced rust detected '' @ em_dash @ '' urgent action required!'')]\<rparr>)]"

text \<open>nuuuttsss.py, lines 26--160.\<close>

definition DISEASE_INFO_keras :: "(string \<times> disease_record) list" where
  "DISEASE_INFO_keras =
    [(''early_rust_1'',
      \<lparr>name = ''Early Rust'',
       causes = [''Moderate temperatures (20-25'' @ degree_sign @ ''C) with high humidity'',
                 ''Frequent dew or rainfall'',
                 ''Wind-borne spores from nearby infected plants'',
                 ''Nutrient deficiency weakening plant immunity''],
       cure = [''Apply Triadimefon 25% WP @ 1g/L'',
               ''Use Hexaconazole 5% SC @ 2ml/L'',
               ''Improve air circulation in the field'',
               ''Remove and destroy infected leaves''],
       prevention = [''Plant rust-resistant varieties'',
                     ''Maintain good irrigation practices'',
                     ''Balance soil nutrients'',
                     ''Regularly inspect crops for early signs''],
       weather_alerts =
         [(''high_humidity'', ''High humidity detected! Increase monitoring for rust spread.'')]\<rparr>),
     (''late_leaf_spot_1'',
      \<lparr>name = ''Late Leaf Spot'',
       causes = [''High humidity (>85%)'',
                 ''Cool to moderate temperatures (20-25'' @ degree_sign @ ''C)'',
                 ''Prolonged leaf wetness'',
                 ''Dense plant canopy restricting airflow''],
       cure = [''Apply Chlorothalonil 75% WP @ 2g/L'',
               ''Use Tebuconazole + Sulphur mix'',
               ''Alternate between contact and systemic fungicides''],
       prevention = [''Use resistant cultivars'',
                     ''Increase plant spacing'',
                     ''Irrigate in mornings for faster drying'',
                     ''Remove infected crop debris''],
       weather_alerts =
         [(''high_humidity'',
           ''High humidity may worsen leaf spot. Avoid overhead irrigation.'')]\<rparr>),
     (''nutrition_deficiency_1'',
      \<lparr>name = ''Nutritional Deficiency'',
       causes = [''Imbalanced or inadequate fertilization'',
                 ''Soil pH too low or too high'',
                 ''Poor organic matter in soil'',
                 ''Waterlogged or excessively dry conditions''],
       cure = [''Conduct soil testing'',
               ''Apply correct fertilizers based on deficiency'',
               ''Use foliar sprays for quick correction''],
       prevention = [''Maintain optimal soil pH'',
                     ''Add compost or manure regularly'',
                     ''Follow recommended fertilizer schedules''],
       weather_alerts =
         [(''high_rain'', ''Heavy rain may leach nutrients. Check soil health.'')]\<rparr>),
     (''healthy_leaf_1'',
      \<lparr>name = ''Healthy Leaf'',
       causes = [''Optimal growing conditions'',
                 ''Balanced nutrition'',
                 ''Good soil health'',
                 ''Effective pest and disease management''],
       cure = [''Continue good agricultural practices'',
               ''Regular monitoring for early problem detection''],
       prevention = [''Use high-quality seeds'',
                     ''Maintain crop rotation'',
                     ''Avoid over- or under-irrigation''],
       weather_alerts =
         [(''high_humidity'',
           ''Healthy leaves detected, but monitor for fungal risks in humid conditions.'')]\<rparr>),
     (''early_leaf_spot_1'',
      \<lparr>name = ''Early Leaf Spot'',
       causes = [''High humidity and warm temperatures'',
                 ''Poor air circulation'',
                 ''Overhead irrigation causing wet leaves'',
                 ''Infected crop residues in soil''],
       cure = [''Apply copper-based fungicides'',
               ''Use Propiconazole 25% EC'',
               ''Remove infected leaves immediately''],
       prevention = [''Use disease-resistant varieties'',
                     ''Improve plant spacing'',
                     ''Switch to drip irrigation''],
       weather_alerts =
         [(''high_humidity'',
           ''High humidity increases leaf spot risk. Use drip irrigation.'')]\<rparr>),
     (''rust_1'',
      \<lparr>name = ''Advanced Rust'',
       causes = [''Untreated early rust progression'',
                 ''Persistent humid conditions'',
                 ''Delayed disease control measures''],
       cure = [''Apply Propiconazole 25% EC'',
               ''Combine systemic and contact fungicides'',
               ''Increase spraying frequency''],
       prevention = [''Early detection and treatment'',
                     ''Monitor weather for rust-favoring conditions'',
                     ''Maintain optimal plant health''],
       weather_alerts =
         [(''high_humidity'',
           ''Advanced rust detected! Urgent action needed in humid conditions.'')]\<rparr>)]"

subsection \<open>Exceptions\<close>

text \<open>
  The exceptions the modelled code can meet. \<open>LibraryError\<close> stands for an exception raised
  inside a library call (PIL, torch, Keras, requests, werkzeug), named by its class.
  \<open>ModelNotLoaded\<close> is \<^verbatim>\<open>Exception("Model not loaded")\<close> of nuuuttsss.py, line 189.
\<close>

datatype py_exn =
    KeyError string
  | TypeError
  | AttributeError
  | IndexError
  | ValueError
  | ModelNotLoaded
  | LibraryError string

text \<open>\<^verbatim>\<open>try: body  except Exception as e: handler(e)\<close>\<close>

definition try_except :: "py_exn + 'a \<Rightarrow> (py_exn \<Rightarrow> py_exn + 'a) \<Rightarrow> py_exn + 'a" where
  "try_except body handler = (case body of Inl e \<Rightarrow> handler e | Inr r \<Rightarrow> Inr r)"

text \<open>\<^verbatim>\<open>xs[i]\<close> for an index that is not negative.\<close>

definition list_index :: "'a list \<Rightarrow> nat \<Rightarrow> py_exn + 'a" where
  "list_index xs i = (if i < length xs then Inr (xs ! i) else Inl IndexError)"

subsection \<open>Model outputs\<close>

text \<open>
  \<^verbatim>\<open>argmax\<close> of torch and numpy: the index of the first maximal entry; an empty vector
  raises, which is \<open>None\<close> here.
\<close>

fun argmax :: "real list \<Rightarrow> nat option" where
  "argmax [] = None"
| "argmax (x # xs) =
     (case argmax xs of
        None \<Rightarrow> Some 0
      | Some i \<Rightarrow> if x < xs ! i then Some (Suc i) else Some 0)"

text \<open>
  The softmax of a vector in exact arithmetic. \<^verbatim>\<open>torch.softmax\<close> computes it in float32
  and rounds, so the services below take the library call as a parameter and this
  function is what it approximates.
\<close>

definition softmax :: "real list \<Rightarrow> real list" where
  "softmax xs = map (\<lambda>x. exp x / sum_list (map exp xs)) xs"

text \<open>
  The dictionary both services return for a prediction. The last four keys are
  \<^verbatim>\<open>causes\<close>, \<^verbatim>\<open>cure\<close>, \<^verbatim>\<open>prevention\<close> and \<^verbatim>\<open>weather_alerts\<close> in the source;
  the prefix keeps them apart from the fields of \<open>disease_record\<close>.
\<close>

record prediction =
  predicted_class :: string
  confidence :: real
  all_confidences :: "real list"
  pred_causes :: "string list"
  pred_cure :: "string list"
  pred_prevention :: "string list"
  pred_weather_alerts :: "(string \<times> string) list"

text \<open>
  The dictionary literal of \<^verbatim>\<open>predict_image\<close> and \<^verbatim>\<open>predict_class\<close>, with
  \<^verbatim>\<open>info = DISEASE_INFO.get(predicted_class, {})\<close> as an \<open>option\<close> and each
  \<^verbatim>\<open>info.get(key, default)\<close> falling back to its default when \<open>info\<close> is empty.
\<close>

definition result_dict ::
  "disease_record option \<Rightarrow> string \<Rightarrow> real \<Rightarrow> real list \<Rightarrow> prediction" where
  "result_dict info label conf probs =
     \<lparr>predicted_class = (case info of None \<Rightarrow> label | Some d \<Rightarrow> name d),
      confidence = conf,
      all_confidences = probs,
      pred_causes = (case info of None \<Rightarrow> [] | Some d \<Rightarrow> causes d),
      pred_cure = (case info of None \<Rightarrow> [] | Some d \<Rightarrow> cure d),
      pred_prevention = (case info of None \<Rightarrow> [] | Some d \<Rightarrow> prevention d),
      pred_weather_alerts = (case info of None \<Rightarrow> [] | Some d \<Rightarrow> weather_alerts d)\<rparr>"

subsection \<open>Uploads, effects and responses\<close>

record 'b upload =
  filename :: string
  content :: 'b

text \<open>
  What a handler does beyond returning: files written to disk, and the calls of the
  preprocessing and of the classifier, in order.
\<close>

datatype event = Saved string | Preprocess string | Inference

record 'b world =
  disk :: "string \<rightharpoonup> 'b"
  calls :: "event list"

datatype entry = Prediction prediction | EntryError string

text \<open>
  \<open>JsonList\<close> is \<^verbatim>\<open>jsonify(results)\<close>, \<open>JsonPrediction\<close> is \<^verbatim>\<open>jsonify(prediction_result)\<close>
  (both with status 200), \<open>JsonError msg code\<close> is \<^verbatim>\<open>jsonify({"error": msg}), code\<close>.
  An exception that leaves a handler is \<open>Inl\<close> of the handler's result; Flask answers it
  with status 500.
\<close>

datatype response =
    JsonList "entry list"
  | JsonPrediction prediction
  | JsonError string nat

subsection \<open>The ViT service (test2\_0.py)\<close>

text \<open>
  The parts of the service that live outside the source: \<open>preprocess_vit\<close> is
  \<^verbatim>\<open>Image.open(path).convert("RGB")\<close> followed by \<^verbatim>\<open>transform(image).unsqueeze(0)\<close> on the
  bytes of a file, \<open>model_vit\<close> is \<^verbatim>\<open>model(img_tensor).logits\<close> (the row of the one
  batch item), \<open>softmax_vit\<close> is \<^verbatim>\<open>torch.softmax(outputs, dim=1)\<close> on that row, and
  \<open>save_raises\<close> tells whether \<^verbatim>\<open>file.save(filepath)\<close> raises for a path (a missing
  directory, a path that is a directory, no permission). The handlers below start from
  the parsed \<^verbatim>\<open>request.files\<close>: a body above \<^verbatim>\<open>MAX_CONTENT_LENGTH\<close> is refused by Flask
  with status 413 before that.
\<close>

record ('b, 't) vit_env =
  preprocess_vit :: "'b \<Rightarrow> py_exn + 't"
  model_vit :: "'t \<Rightarrow> py_exn + real list"
  softmax_vit :: "real list \<Rightarrow> real list"
  save_raises :: "string \<Rightarrow> py_exn option"

definition UPLOAD_FOLDER :: string where
  "UPLOAD_FOLDER = ''uploads''"

text \<open>\<^verbatim>\<open>os.path.join(a, b)\<close> on POSIX.\<close>

definition path_join :: "string \<Rightarrow> string \<Rightarrow> string" where
  "path_join a b =
     (if startswith b ''/'' then b
      else if a = [] \<or> last a = CHR ''/'' then a @ b
      else a @ ''/'' @ b)"

text \<open>test2\_0.py, lines 135--136.\<close>

definition allowed_file_vit :: "string \<Rightarrow> bool" where
  "allowed_file_vit fname \<longleftrightarrow>
     CHR ''.'' \<in> set fname \<and>
     lower (after_last_dot fname) \<in> {''png'', ''jpg'', ''jpeg'', ''webp''}"

text \<open>
  test2\_0.py, lines 144--157: what \<^verbatim>\<open>predict_image\<close> does with the logits. The softmax
  comes first, as in the source; the argmax is taken of the logits, not of the softmax.
\<close>

definition classify_vit :: "(real list \<Rightarrow> real list) \<Rightarrow> real list \<Rightarrow> py_exn + prediction" where
  "classify_vit torch_softmax outputs =
     (let probs = torch_softmax outputs in
      case argmax outputs of
        None \<Rightarrow> Inl (LibraryError ''IndexError'')
      | Some class_id \<Rightarrow>
          (case list_index CLASS_NAMES class_id of
             Inl e \<Rightarrow> Inl e
           | Inr label \<Rightarrow>
               (case list_index probs class_id of
                  Inl e \<Rightarrow> Inl e
                | Inr conf \<Rightarrow>
                    Inr (result_dict (map_of DISEASE_INFO_vit label) label conf probs))))"

text \<open>test2\_0.py, lines 139--160. The body of the \<^verbatim>\<open>try\<close> first, then the function.\<close>

definition predict_image_body_vit ::
  "('b, 't) vit_env \<Rightarrow> 'b world \<Rightarrow> string \<Rightarrow> 'b world \<times> (py_exn + prediction)" where
  "predict_image_body_vit env w image_path =
     (let w1 = w\<lparr>calls := calls w @ [Preprocess image_path]\<rparr> in
      case disk w image_path of
        None \<Rightarrow> (w1, Inl (LibraryError ''FileNotFoundError''))
      | Some bytes \<Rightarrow>
          (case preprocess_vit env bytes of
             Inl e \<Rightarrow> (w1, Inl e)
           | Inr img_tensor \<Rightarrow>
               (let w2 = w1\<lparr>calls := calls w1 @ [Inference]\<rparr> in
                case model_vit env img_tensor of
                  Inl e \<Rightarrow> (w2, Inl e)
                | Inr outputs \<Rightarrow> (w2, classify_vit (softmax_vit env) outputs))))"

definition predict_image_vit ::
  "('b, 't) vit_env \<Rightarrow> 'b world \<Rightarrow> string \<Rightarrow> 'b world \<times> (py_exn + prediction option)" where
  "predict_image_vit env w image_path =
     (case predict_image_body_vit env w image_path of
        (w', body) \<Rightarrow> (w', try_except (map_sum id Some body) (\<lambda>e. Inr None)))"

text \<open>
  test2\_0.py, lines 196--207: the loop over the files. \<^verbatim>\<open>if file\<close> is the truth value
  of a werkzeug upload: its file name is not empty. An exception of \<^verbatim>\<open>file.save\<close> or one
  that \<^verbatim>\<open>predict_image\<close> let through leaves the loop and the handler.
\<close>

fun predict_loop_vit ::
  "('b, 't) vit_env \<Rightarrow> 'b world \<Rightarrow> 'b upload list \<Rightarrow> entry list \<Rightarrow>
   'b world \<times> (py_exn + entry list)" where
  "predict_loop_vit env w [] results = (w, Inr results)"
| "predict_loop_vit env w (file # files) results =
     (if filename file \<noteq> [] \<and> allowed_file_vit (filename file) then
        (let filepath = path_join UPLOAD_FOLDER (filename file) in
         case save_raises env filepath of
           Some e \<Rightarrow> (w, Inl e)
         | None \<Rightarrow>
             (case predict_image_vit env
                     (w\<lparr>disk := (disk w)(filepath \<mapsto> content file),
                        calls := calls w @ [Saved filepath]\<rparr>) filepath of
                (w', Inl e) \<Rightarrow> (w', Inl e)
              | (w', Inr (Some pred)) \<Rightarrow>
                  predict_loop_vit env w' files (results @ [Prediction pred])
              | (w', Inr None) \<Rightarrow>
                  predict_loop_vit env w' files
                    (results @ [EntryError ''Failed to process image''])))
      else
        predict_loop_vit env w files
          (results @ [EntryError (''Invalid file: '' @ filename file)]))"

text \<open>
  \<^verbatim>\<open>request.files\<close> is a multi-dictionary: the uploads with their field names, in the
  order of the request. \<^verbatim>\<open>getlist(key)\<close> returns the uploads of one field name.
\<close>

definition getlist :: "string \<Rightarrow> (string \<times> 'a) list \<Rightarrow> 'a list" where
  "getlist key multi_dict = map snd (filter (\<lambda>kv. fst kv = key) multi_dict)"

text \<open>test2\_0.py, lines 187--209.\<close>

definition predict_vit ::
  "('b, 't) vit_env \<Rightarrow> 'b world \<Rightarrow> (string \<times> 'b upload) list \<Rightarrow>
   'b world \<times> (py_exn + response)" where
  "predict_vit env w request_files =
     (if ''images'' \<notin> fst ` set request_files then
        (w, Inr (JsonError ''No images provided'' 400))
      else
        (let files = getlist ''images'' request_files in
         if files = [] \<or> list_all (\<lambda>f. filename f = []) files then
           (w, Inr (JsonError ''No files selected'' 400))
         else
           (case predict_loop_vit env w files [] of
              (w', res) \<Rightarrow> (w', map_sum id JsonList res))))"

subsection \<open>The Keras service (nuuuttsss.py)\<close>

text \<open>
  Outside the source: \<open>preprocess_keras\<close> is the body of \<^verbatim>\<open>preprocess_image\<close>
  (\<^verbatim>\<open>Image.open\<close>, \<^verbatim>\<open>resize\<close>, scaling, \<^verbatim>\<open>expand_dims\<close>) on the bytes of an upload, and
  \<open>model_keras\<close> is the global \<^verbatim>\<open>model\<close>: \<open>None\<close> when \<^verbatim>\<open>load_model\<close> raised at start-up
  (lines 163--167), otherwise \<^verbatim>\<open>model.predict\<close>, which returns one row per batch item.
\<close>

record ('b, 'a) keras_env =
  preprocess_keras :: "'b \<Rightarrow> py_exn + 'a"
  model_keras :: "('a \<Rightarrow> py_exn + real list list) option"

text \<open>nuuuttsss.py, line 13.\<close>

definition ALLOWED_EXTENSIONS :: "string set" where
  "ALLOWED_EXTENSIONS = {''png'', ''jpg'', ''jpeg'', ''webp''}"

text \<open>nuuuttsss.py, lines 170--171.\<close>

definition allowed_file_keras :: "string \<Rightarrow> bool" where
  "allowed_file_keras fname \<longleftrightarrow>
     CHR ''.'' \<in> set fname \<and> lower (after_last_dot fname) \<in> ALLOWED_EXTENSIONS"

text \<open>nuuuttsss.py, lines 174--183.\<close>

definition preprocess_image_keras ::
  "('b, 'a) keras_env \<Rightarrow> event list \<Rightarrow> 'b upload \<Rightarrow> event list \<times> (py_exn + 'a option)" where
  "preprocess_image_keras env evs image_file =
     (evs @ [Preprocess (filename image_file)],
      try_except (map_sum id Some (preprocess_keras env (content image_file))) (\<lambda>e. Inr None))"

text \<open>nuuuttsss.py, lines 191--203: what \<^verbatim>\<open>predict_class\<close> does with the model's output.\<close>

definition classify_keras :: "real list list \<Rightarrow> py_exn + prediction" where
  "classify_keras predictions =
     (case list_index predictions 0 of
        Inl e \<Rightarrow> Inl e
      | Inr row \<Rightarrow>
          (case argmax row of
             None \<Rightarrow> Inl ValueError
           | Some predicted_class_idx \<Rightarrow>
               (let conf = row ! predicted_class_idx in
                case list_index CLASSES predicted_class_idx of
                  Inl e \<Rightarrow> Inl e
                | Inr label \<Rightarrow>
                    Inr (result_dict (map_of DISEASE_INFO_keras label) label conf row))))"

text \<open>nuuuttsss.py, lines 186--206. The body of the \<^verbatim>\<open>try\<close> first, then the function.\<close>

definition predict_class_body_keras ::
  "('b, 'a) keras_env \<Rightarrow> event list \<Rightarrow> 'a \<Rightarrow> event list \<times> (py_exn + prediction)" where
  "predict_class_body_keras env evs image_array =
     (case model_keras env of
        None \<Rightarrow> (evs, Inl ModelNotLoaded)
      | Some m \<Rightarrow>
          (evs @ [Inference],
           case m image_array of
             Inl e \<Rightarrow> Inl e
           | Inr predictions \<Rightarrow> classify_keras predictions))"

definition predict_class_keras ::
  "('b, 'a) keras_env \<Rightarrow> event list \<Rightarrow> 'a \<Rightarrow> event list \<times> (py_exn + prediction option)" where
  "predict_class_keras env evs image_array =
     (case predict_class_body_keras env evs image_array of
        (evs', body) \<Rightarrow> (evs', try_except (map_sum id Some body) (\<lambda>e. Inr None)))"

text \<open>
  nuuuttsss.py, lines 985--1005. \<^verbatim>\<open>request.files['image']\<close> is the first upload of that
  field name.
\<close>

definition predict_keras ::
  "('b, 'a) keras_env \<Rightarrow> event list \<Rightarrow> (string \<times> 'b upload) list \<Rightarrow>
   event list \<times> (py_exn + response)" where
  "predict_keras env evs request_files =
     (case map_of request_files ''image'' of
        None \<Rightarrow> (evs, Inr (JsonError ''No image file provided'' 400))
      | Some file \<Rightarrow>
          if filename file = [] then (evs, Inr (JsonError ''No file selected'' 400))
          else if \<not> allowed_file_keras (filename file) then
            (evs, Inr (JsonError
               ''Invalid file type. Please upload PNG, JPG, JPEG, or WebP files.'' 400))
          else
            (case preprocess_image_keras env evs file of
               (evs1, Inl e) \<Rightarrow> (evs1, Inl e)
             | (evs1, Inr None) \<Rightarrow> (evs1, Inr (JsonError ''Error processing image'' 500))
             | (evs1, Inr (Some image_array)) \<Rightarrow>
                 (case predict_class_keras env evs1 image_array of
                    (evs2, Inl e) \<Rightarrow> (evs2, Inl e)
                  | (evs2, Inr None) \<Rightarrow>
                      (evs2, Inr (JsonError ''Error making prediction'' 500))
                  | (evs2, Inr (Some prediction_result)) \<Rightarrow>
                      (evs2, Inr (JsonPrediction prediction_result)))))"

subsection \<open>The weather fetchers\<close>

datatype json =
    JNull
  | JBool bool
  | JNum real
  | JStr string
  | JArr "json list"
  | JObj "(string \<times> json) list"

text \<open>\<^verbatim>\<open>d[k]\<close>, \<^verbatim>\<open>d.get(k, default)\<close> and \<^verbatim>\<open>s.lower()\<close> on a parsed JSON value.\<close>

definition subscript :: "json \<Rightarrow> string \<Rightarrow> py_exn + json" where
  "subscript d k =
     (case d of
        JObj kvs \<Rightarrow> (case map_of kvs k of None \<Rightarrow> Inl (KeyError k) | Some v \<Rightarrow> Inr v)
      | _ \<Rightarrow> Inl TypeError)"

definition dict_get :: "json \<Rightarrow> string \<Rightarrow> json \<Rightarrow> py_exn + json" where
  "dict_get d k dflt =
     (case d of
        JObj kvs \<Rightarrow> (case map_of kvs k of None \<Rightarrow> Inr dflt | Some v \<Rightarrow> Inr v)
      | _ \<Rightarrow> Inl AttributeError)"

definition str_lower :: "json \<Rightarrow> py_exn + string" where
  "str_lower v = (case v of JStr s \<Rightarrow> Inr (lower s) | _ \<Rightarrow> Inl AttributeError)"

text \<open>
  \<^verbatim>\<open>requests.get(url, timeout=...)\<close>: the request the code builds, and the answer of the
  world to it. \<open>timeout = None\<close> is a call without the \<^verbatim>\<open>timeout\<close> argument.
  \<open>json_body\<close> is \<^verbatim>\<open>res.json()\<close>, which raises on a body that is not JSON.
\<close>

record http_request =
  url :: string
  timeout :: "nat option"

record http_response =
  status_code :: nat
  json_body :: "py_exn + json"

text \<open>
  A value of the dictionary \<^verbatim>\<open>get_weather\<close> returns: a JSON value taken from the
  response, or \<^verbatim>\<open>str(e)\<close> of the exception caught.
\<close>

datatype wvalue = FromJson json | StrOfExn py_exn

definition api_key :: string where
  "api_key = ''f3ac3e90c50e44c29cb141812252509''"

definition weather_url :: "string \<Rightarrow> string" where
  "weather_url city =
     ''http://api.weatherapi.com/v1/current.json?key='' @ api_key @ ''&q='' @ city @ ''&aqi=no''"

text \<open>The dictionary literal of the status-200 branch; its items are evaluated in order.\<close>

definition snapshot :: "json \<Rightarrow> py_exn + (string \<times> wvalue) list" where
  "snapshot data =
     (case subscript data ''current'' of Inl e \<Rightarrow> Inl e | Inr cur \<Rightarrow>
     (case subscript cur ''temp_c'' of Inl e \<Rightarrow> Inl e | Inr temp \<Rightarrow>
     (case subscript cur ''humidity'' of Inl e \<Rightarrow> Inl e | Inr hum \<Rightarrow>
     (case subscript cur ''condition'' of Inl e \<Rightarrow> Inl e | Inr cond \<Rightarrow>
     (case subscript cond ''text'' of Inl e \<Rightarrow> Inl e | Inr txt \<Rightarrow>
     (case str_lower txt of Inl e \<Rightarrow> Inl e | Inr low \<Rightarrow>
        Inr [(''temp'', FromJson temp),
             (''humidity'', FromJson hum),
             (''weather'', FromJson txt),
             (''rain'', FromJson (JBool (contains_str ''rain'' low)))]))))))"

text \<open>\<^verbatim>\<open>{"error": data.get("error", {}).get("message", fallback)}\<close>\<close>

definition error_payload :: "string \<Rightarrow> json \<Rightarrow> py_exn + (string \<times> wvalue) list" where
  "error_payload fallback data =
     (case dict_get data ''error'' (JObj []) of Inl e \<Rightarrow> Inl e | Inr err \<Rightarrow>
     (case dict_get err ''message'' (JStr fallback) of Inl e \<Rightarrow> Inl e | Inr msg \<Rightarrow>
        Inr [(''error'', FromJson msg)]))"

text \<open>
  The body of the \<^verbatim>\<open>try\<close> of both \<^verbatim>\<open>get_weather\<close> functions, which differ in the request
  they send and in the fallback message.
\<close>

definition weather_body ::
  "(http_request \<Rightarrow> py_exn + http_response) \<Rightarrow> http_request \<Rightarrow> string \<Rightarrow>
   py_exn + (string \<times> wvalue) list" where
  "weather_body requests_get req fallback =
     (case requests_get req of Inl e \<Rightarrow> Inl e | Inr res \<Rightarrow>
     (case json_body res of Inl e \<Rightarrow> Inl e | Inr data \<Rightarrow>
        (if status_code res = 200 then snapshot data else error_payload fallback data)))"

text \<open>test2\_0.py, lines 163--178.\<close>

definition weather_request_vit :: "string \<Rightarrow> http_request" where
  "weather_request_vit city = \<lparr>url = weather_url city, timeout = Some 10\<rparr>"

definition get_weather_vit ::
  "(http_request \<Rightarrow> py_exn + http_response) \<Rightarrow> string \<Rightarrow> py_exn + (string \<times> wvalue) list" where
  "get_weather_vit requests_get city =
     try_except (weather_body requests_get (weather_request_vit city) ''Weather fetch failed'')
       (\<lambda>e. Inr [(''error'', StrOfExn e)])"

text \<open>nuuuttsss.py, lines 210--226.\<close>

definition weather_request_keras :: "string \<Rightarrow> http_request" where
  "weather_request_keras city = \<lparr>url = weather_url city, timeout = None\<rparr>"

definition get_weather_keras ::
  "(http_request \<Rightarrow> py_exn + http_response) \<Rightarrow> string \<Rightarrow> py_exn + (string \<times> wvalue) list" where
  "get_weather_keras requests_get city =
     try_except (weather_body requests_get (weather_request_keras city) ''Failed to fetch weather'')
       (\<lambda>e. Inr [(''error'', StrOfExn e)])"

subsection \<open>Checkpoint loading (modelinfo.py)\<close>

text \<open>
  What \<^verbatim>\<open>torch.load\<close> can return: a tensor (or any other object that is no dictionary),
  or a dictionary, whose items are kept in insertion order with distinct keys.
\<close>

datatype 'w pyval = Tensor 'w | Dict "(string \<times> 'w pyval) list"

text \<open>The key \<^verbatim>\<open>k[7:]\<close> or \<^verbatim>\<open>k\<close> under which the loop stores an item.\<close>

definition strip_module :: "string \<Rightarrow> string" where
  "strip_module k = (if startswith k ''module.'' then drop 7 k else k)"

text \<open>
  modelinfo.py, lines 41--46: the loop that fills \<^verbatim>\<open>new_checkpoint\<close>. An assignment to a
  key the dictionary already has replaces its value; a new key is appended.
\<close>

definition new_checkpoint :: "(string \<times> 'v) list \<Rightarrow> (string \<times> 'v) list" where
  "new_checkpoint items = foldl (\<lambda>new kv. AList.update (strip_module (fst kv)) (snd kv) new) [] items"

text \<open>
  modelinfo.py, lines 39--40: a dictionary with the key \<^verbatim>\<open>state_dict\<close> is replaced by the
  value under that key.
\<close>

definition unwrap_state_dict :: "'w pyval \<Rightarrow> 'w pyval" where
  "unwrap_state_dict checkpoint =
     (case checkpoint of
        Dict kvs \<Rightarrow> (case map_of kvs ''state_dict'' of Some inner \<Rightarrow> inner | None \<Rightarrow> checkpoint)
      | Tensor t \<Rightarrow> checkpoint)"

text \<open>
  modelinfo.py, lines 36--50. \<open>torch_load\<close> and \<open>load_state_dict\<close> are the library calls;
  the second returns the model with its weights set, or raises on keys or shapes that do
  not fit \<^verbatim>\<open>ViT()\<close>. \<^verbatim>\<open>checkpoint.items()\<close> raises on what is no dictionary. Nothing
  here is caught.
\<close>

definition load_model ::
  "(string \<Rightarrow> py_exn + 'w pyval) \<Rightarrow> ((string \<times> 'w pyval) list \<Rightarrow> py_exn + 'm) \<Rightarrow>
   string \<Rightarrow> py_exn + 'm" where
  "load_model torch_load load_state_dict model_path =
     (case torch_load model_path of
        Inl e \<Rightarrow> Inl e
      | Inr loaded \<Rightarrow>
          (case unwrap_state_dict loaded of
             Tensor t \<Rightarrow> Inl AttributeError
           | Dict items \<Rightarrow> load_state_dict (new_checkpoint items)))"

text \<open>
  The keys of a state dictionary as distributed training saves it: every key with the
  prefix \<^verbatim>\<open>module.\<close> in front.
\<close>

definition add_module_prefix :: "(string \<times> 'v) list \<Rightarrow> (string \<times> 'v) list" where
  "add_module_prefix items = map (\<lambda>kv. (''module.'' @ fst kv, snd kv)) items"

subsection \<open>What the ViT handler is expected to return\<close>

text \<open>
  The entry the handler owes to one upload, in the words of the specification: a
  prediction for a file that is valid and processed successfully, an error entry for a
  file that is invalid or fails processing. \<open>processed_vit\<close> is the pipeline on the bytes
  of the upload: preprocessing, the classifier, the result dictionary.
\<close>

definition processed_vit :: "('b, 't) vit_env \<Rightarrow> 'b \<Rightarrow> prediction option" where
  "processed_vit env bytes =
     (case preprocess_vit env bytes of
        Inl e \<Rightarrow> None
      | Inr img_tensor \<Rightarrow>
          (case model_vit env img_tensor of
             Inl e \<Rightarrow> None
           | Inr outputs \<Rightarrow>
               (case classify_vit (softmax_vit env) outputs of
                  Inl e \<Rightarrow> None
                | Inr r \<Rightarrow> Some r)))"

definition expected_entry_vit :: "('b, 't) vit_env \<Rightarrow> 'b upload \<Rightarrow> entry" where
  "expected_entry_vit env file =
     (if allowed_file_vit (filename file) then
        (case processed_vit env (content file) of
           Some pred \<Rightarrow> Prediction pred
         | None \<Rightarrow> EntryError ''Failed to process image'')
      else EntryError (''Invalid file: '' @ filename file))"

text \<open>The effects one upload is expected to have: none for a file that is rejected.\<close>

definition file_events_vit :: "('b, 't) vit_env \<Rightarrow> 'b upload \<Rightarrow> event list" where
  "file_events_vit env file =
     (if allowed_file_vit (filename file) then
        [Saved (path_join UPLOAD_FOLDER (filename file)),
         Preprocess (path_join UPLOAD_FOLDER (filename file))] @
        (case preprocess_vit env (content file) of Inl e \<Rightarrow> [] | Inr img_tensor \<Rightarrow> [Inference])
      else [])"

subsection \<open>Sample environments\<close>

text \<open>
  Concrete environments for evaluating the services: an upload's bytes are its own
  tensor and the classifier returns its input, so an upload is written down as the
  output vector it leads to. The softmax is the exact one.
\<close>

definition sample_env_vit :: "(real list, real list) vit_env" where
  "sample_env_vit =
     \<lparr>preprocess_vit = Inr, model_vit = Inr, softmax_vit = softmax, save_raises = Map.empty\<rparr>"

text \<open>The same, on a machine where the upload folder has no sub-directory \<^verbatim>\<open>field\<close>.\<close>

definition sample_env_no_subdir_vit :: "(real list, real list) vit_env" where
  "sample_env_no_subdir_vit =
     \<lparr>preprocess_vit = Inr, model_vit = Inr, softmax_vit = softmax,
      save_raises = [''uploads/field/leaf.png'' \<mapsto> LibraryError ''FileNotFoundError'']\<rparr>"

definition empty_world :: "real list world" where
  "empty_world = \<lparr>disk = Map.empty, calls = []\<rparr>"

definition sample_env_keras :: "(real list list, real list list) keras_env" where
  "sample_env_keras = \<lparr>preprocess_keras = Inr, model_keras = Some Inr\<rparr>"

text \<open>The Keras service after \<^verbatim>\<open>load_model\<close> failed at start-up.\<close>

definition sample_env_unloaded_keras :: "(real list list, real list list) keras_env" where
  "sample_env_unloaded_keras = \<lparr>preprocess_keras = Inr, model_keras = None\<rparr>"

text \<open>An upload that leads to the second class, and the disk after it was saved.\<close>

definition sample_logits :: "real list" where
  "sample_logits = [0, 2, 1, 0, 0, 0, 0, 0]"

definition sample_world :: "real list world" where
  "sample_world = \<lparr>disk = [''uploads/leaf.png'' \<mapsto> sample_logits], calls = []\<rparr>"

text \<open>An output row of the Keras model with its maximum at index 2.\<close>

definition sample_scores :: "real list" where
  "sample_scores = [1 / 10, 1 / 10, 1 / 2, 1 / 10, 1 / 10, 1 / 10]"






text \<open>An output row with seven entries, the largest at index 6.\<close>

definition sample_seven_scores :: "real list" where
  "sample_seven_scores = [0, 0, 0, 0, 0, 0, 1]"

definition sample_upload_keras :: "real list list upload" where
  "sample_upload_keras = \<lparr>filename = ''leaf.JPG'', content = [sample_scores]\<rparr>"

text \<open>
  Uploads to the ViT service: a leaf image, a file without an image extension, an image
  that yields no output to classify, and an image whose name points into a
  sub-directory.
\<close>

definition sample_leaf_upload :: "real list upload" where
  "sample_leaf_upload = \<lparr>filename = ''leaf.png'', content = sample_logits\<rparr>"

definition sample_notes_upload :: "real list upload" where
  "sample_notes_upload = \<lparr>filename = ''notes.txt'', content = sample_logits\<rparr>"

definition sample_blank_upload :: "real list upload" where
  "sample_blank_upload = \<lparr>filename = ''blank.JPEG'', content = []\<rparr>"

definition sample_subdir_upload :: "real list upload" where
  "sample_subdir_upload = \<lparr>filename = ''field/leaf.png'', content = sample_logits\<rparr>"

text \<open>
  Requests to the ViT service: three uploads of which the second is rejected and the
  third fails processing; two upload parts without a file name; a leaf image followed by
  the image in the sub-directory.
\<close>

definition sample_request_vit :: "(string \<times> real list upload) list" where
  "sample_request_vit =
     [(''images'', sample_leaf_upload),
      (''images'', sample_notes_upload),
      (''images'', sample_blank_upload)]"

definition sample_unnamed_request_vit :: "(string \<times> real list upload) list" where
  "sample_unnamed_request_vit =
     [(''images'', \<lparr>filename = [], content = sample_logits\<rparr>),
      (''images'', \<lparr>filename = [], content = sample_logits\<rparr>)]"

definition sample_subdir_request_vit :: "(string \<times> real list upload) list" where
  "sample_subdir_request_vit =
     [(''images'', sample_leaf_upload), (''images'', sample_subdir_upload)]"

text \<open>The image in the sub-directory first, then the file without an image extension.\<close>

definition sample_blocked_request_vit :: "(string \<times> real list upload) list" where
  "sample_blocked_request_vit =
     [(''images'', sample_subdir_upload), (''images'', sample_notes_upload)]"


text \<open>
  Checkpoints: a state dictionary with two weights, saved plainly as \<^verbatim>\<open>plain.pth\<close> and
  with prefixed keys as \<^verbatim>\<open>parallel.pth\<close>; a dictionary in which a prefixed and a plain
  key meet; and a dictionary whose key has the prefix twice. Weights are numbers here.
\<close>

definition sample_state_dict :: "(string \<times> nat pyval) list" where
  "sample_state_dict = [(''pos_embedding'', Tensor 1), (''mlp_head.1.weight'', Tensor 2)]"

definition sample_torch_load :: "string \<Rightarrow> py_exn + nat pyval" where
  "sample_torch_load model_path =
     (if model_path = ''parallel.pth'' then Inr (Dict (add_module_prefix sample_state_dict))
      else if model_path = ''plain.pth'' then Inr (Dict sample_state_dict)
      else Inl (LibraryError ''FileNotFoundError''))"

definition sample_clash_dict :: "(string \<times> nat pyval) list" where
  "sample_clash_dict = [(''module.a'', Tensor 1), (''a'', Tensor 2)]"

definition sample_twice_dict :: "(string \<times> nat pyval) list" where
  "sample_twice_dict = [(''module.a'', Tensor 1)]"

subsection \<open>The weather answer in the words of the specification\<close>

text \<open>
  A well-formed body of a status-200 answer has \<^verbatim>\<open>current.temp_c\<close>, \<^verbatim>\<open>current.humidity\<close>
  and a string \<^verbatim>\<open>current.condition.text\<close>; the function returns the three.
\<close>

definition well_formed_body :: "json \<Rightarrow> (json \<times> json \<times> string) option" where
  "well_formed_body data =
     (case data of
        JObj members \<Rightarrow>
          (case map_of members ''current'' of
             Some (JObj cur) \<Rightarrow>
               (case map_of cur ''temp_c'' of
                  None \<Rightarrow> None
                | Some temp \<Rightarrow>
                    (case map_of cur ''humidity'' of
                       None \<Rightarrow> None
                     | Some hum \<Rightarrow>
                         (case map_of cur ''condition'' of
                            Some (JObj cond) \<Rightarrow>
                              (case map_of cond ''text'' of
                                 Some (JStr txt) \<Rightarrow> Some (temp, hum, txt)
                               | _ \<Rightarrow> None)
                          | _ \<Rightarrow> None)))
           | _ \<Rightarrow> None)
      | _ \<Rightarrow> None)"

text \<open>
  The message a body of another status carries: the \<^verbatim>\<open>message\<close> of its \<^verbatim>\<open>error\<close> object
  as it was sent, the fallback text where the body has no \<^verbatim>\<open>error\<close> or the object no
  \<^verbatim>\<open>message\<close>; none where the body or its \<^verbatim>\<open>error\<close> is no object.
\<close>

definition sent_message :: "string \<Rightarrow> json \<Rightarrow> json option" where
  "sent_message fallback data =
     (case data of
        JObj members \<Rightarrow>
          (case map_of members ''error'' of
             None \<Rightarrow> Some (JStr fallback)
           | Some (JObj err) \<Rightarrow>
               (case map_of err ''message'' of None \<Rightarrow> Some (JStr fallback) | Some msg \<Rightarrow> Some msg)
           | Some _ \<Rightarrow> None)
      | _ \<Rightarrow> None)"

text \<open>An error payload that carries the text of an exception.\<close>

fun is_exception_payload :: "(string \<times> wvalue) list \<Rightarrow> bool" where
  "is_exception_payload [(k, StrOfExn e)] = (k = ''error'')"
| "is_exception_payload d = False"

text \<open>
  The dictionary owed to an outcome of the external call: the snapshot for a status 200
  with a well-formed body, an error payload for every failure.
\<close>

definition weather_answer ::
  "string \<Rightarrow> py_exn + http_response \<Rightarrow> (string \<times> wvalue) list \<Rightarrow> bool" where
  "weather_answer fallback outcome d \<longleftrightarrow>
     (case outcome of
        Inl e \<Rightarrow> d = [(''error'', StrOfExn e)]
      | Inr res \<Rightarrow>
          (case json_body res of
             Inl e \<Rightarrow> d = [(''error'', StrOfExn e)]
           | Inr data \<Rightarrow>
               (if status_code res = 200 then
                  (case well_formed_body data of
                     None \<Rightarrow> is_exception_payload d
                   | Some (temp, hum, txt) \<Rightarrow>
                       d = [(''temp'', FromJson temp),
                            (''humidity'', FromJson hum),
                            (''weather'', FromJson (JStr txt)),
                            (''rain'', FromJson (JBool (contains_str ''rain'' (lower txt))))])
                else
                  (case sent_message fallback data of
                     None \<Rightarrow> is_exception_payload d
                   | Some msg \<Rightarrow> d = [(''error'', FromJson msg)]))))"

text \<open>
  Outcomes of the external call: a good answer, no network, a status-200 body without
  the humidity, an unknown city, and an error whose message is a number.
\<close>

definition sample_good_body :: json where
  "sample_good_body =
     JObj [(''location'', JObj [(''name'', JStr ''Empangeni'')]),
           (''current'',
            JObj [(''temp_c'', JNum 24), (''humidity'', JNum 85),
                  (''condition'', JObj [(''text'', JStr ''Light Rain'')])])]"

definition sample_http_good :: "http_request \<Rightarrow> py_exn + http_response" where
  "sample_http_good req = Inr \<lparr>status_code = 200, json_body = Inr sample_good_body\<rparr>"

definition sample_http_down :: "http_request \<Rightarrow> py_exn + http_response" where
  "sample_http_down req = Inl (LibraryError ''ConnectionError'')"

definition sample_http_missing_key :: "http_request \<Rightarrow> py_exn + http_response" where
  "sample_http_missing_key req =
     Inr \<lparr>status_code = 200,
          json_body = Inr (JObj [(''current'', JObj [(''temp_c'', JNum 24)])])\<rparr>"

definition sample_http_unknown_city :: "http_request \<Rightarrow> py_exn + http_response" where
  "sample_http_unknown_city req =
     Inr \<lparr>status_code = 400,
          json_body = Inr (JObj [(''error'',
            JObj [(''code'', JNum 1006), (''message'', JStr ''No matching location found.'')])])\<rparr>"

definition sample_http_numeric_message :: "http_request \<Rightarrow> py_exn + http_response" where
  "sample_http_numeric_message req =
     Inr \<lparr>status_code = 400,
          json_body = Inr (JObj [(''error'', JObj [(''message'', JNum 42)])])\<rparr>"

subsection \<open>Order-preserving softmax\<close>


subsection \<open>The extension check in the words of the specification\<close>


section \<open>Properties\<close>

subsection \<open>Auxiliary facts\<close>

lemma try_except_None:
  "try_except (map_sum id Some body) (\<lambda>e. Inr None) =
     Inr (case body of Inl e \<Rightarrow> None | Inr r \<Rightarrow> Some r)"
  by (cases body) (simp_all add: try_except_def)






lemma sum_exp_nonneg: "0 \<le> sum_list (map exp (xs :: real list))"
  by (induction xs) simp_all

lemma sum_exp_pos: "xs \<noteq> [] \<Longrightarrow> 0 < sum_list (map exp (xs :: real list))"
proof (cases xs)
  case Nil
  assume "xs \<noteq> []"
  with Nil show ?thesis by simp
next
  case (Cons a as)
  have "0 < exp a" by simp
  with sum_exp_nonneg [of as] have "0 < exp a + sum_list (map exp as)"
    by linarith
  with Cons show ?thesis by simp
qed


lemma length_softmax: "length (softmax xs) = length xs"
  by (simp add: softmax_def)

lemma softmax_sum: "xs \<noteq> [] \<Longrightarrow> sum_list (softmax xs) = 1"
proof -
  assume ne: "xs \<noteq> []"
  have "sum_list (map (\<lambda>x. exp x / c) xs) = sum_list (map exp xs) / c" for c :: real
    by (induction xs) (simp_all add: add_divide_distrib)
  then show ?thesis
    using sum_exp_pos [OF ne] by (simp add: softmax_def)
qed

subsection \<open>Class-label orderings\<close>

text \<open>
  C1. The two serving scripts order their class labels differently: the ViT service has
  eight labels and the Keras service six, and index 0 (indeed every index that both lists
  have) names a different class in each, so an index produced by a model trained under one
  ordering is given another label by the other service.
\<close>

theorem class_orderings_differ:
  "length CLASS_NAMES = 8 \<and> length CLASSES = 6 \<and>
   (\<exists>i. i < length CLASS_NAMES \<and> i < length CLASSES \<and> CLASS_NAMES ! i \<noteq> CLASSES ! i) \<and>
   list_all2 (\<lambda>a b. a \<noteq> b) (take 6 CLASS_NAMES) CLASSES \<and>
   CLASS_NAMES ! 3 = ''early_rust_1'' \<and> CLASSES ! 3 = ''healthy_leaf_1''"
proof -
  have "CLASS_NAMES ! 0 \<noteq> CLASSES ! 0"
    by (simp add: CLASS_NAMES_def CLASSES_def)
  moreover have "0 < length CLASS_NAMES" "0 < length CLASSES"
    by (simp_all add: CLASS_NAMES_def CLASSES_def)
  ultimately have "\<exists>i. i < length CLASS_NAMES \<and> i < length CLASSES \<and> CLASS_NAMES ! i \<noteq> CLASSES ! i"
    by blast
  moreover have "list_all2 (\<lambda>a b. a \<noteq> b) (take 6 CLASS_NAMES) CLASSES"
    by (simp add: CLASS_NAMES_def CLASSES_def)
  ultimately show ?thesis
    by (simp add: CLASS_NAMES_def CLASSES_def)
qed

subsection \<open>Predictions\<close>

lemma disease_info_vit_complete:
  "list_all (\<lambda>label. case map_of DISEASE_INFO_vit label of
       None \<Rightarrow> False
     | Some d \<Rightarrow> name d \<noteq> [] \<and> causes d \<noteq> [] \<and> cure d \<noteq> [] \<and> prevention d \<noteq> []) CLASS_NAMES"
  by (simp add: DISEASE_INFO_vit_def CLASS_NAMES_def)

lemma disease_info_keras_complete:
  "list_all (\<lambda>label. case map_of DISEASE_INFO_keras label of
       None \<Rightarrow> False
     | Some d \<Rightarrow> name d \<noteq> [] \<and> causes d \<noteq> [] \<and> cure d \<noteq> [] \<and> prevention d \<noteq> []) CLASSES"
  by (simp add: DISEASE_INFO_keras_def CLASSES_def)

lemma class_names_info:
  assumes "label \<in> set CLASS_NAMES"
  shows "\<exists>d. map_of DISEASE_INFO_vit label = Some d \<and>
             name d \<noteq> [] \<and> causes d \<noteq> [] \<and> cure d \<noteq> [] \<and> prevention d \<noteq> []"
  using disease_info_vit_complete assms
  by (auto simp: list_all_iff split: option.splits)

lemma classes_info:
  assumes "label \<in> set CLASSES"
  shows "\<exists>d. map_of DISEASE_INFO_keras label = Some d \<and>
             name d \<noteq> [] \<and> causes d \<noteq> [] \<and> cure d \<noteq> [] \<and> prevention d \<noteq> []"
  using disease_info_keras_complete assms
  by (auto simp: list_all_iff split: option.splits)

lemma classify_vit_Inr:
  assumes "classify_vit sm outputs = Inr r"
  shows "\<exists>i. argmax outputs = Some i \<and> i < length CLASS_NAMES \<and> i < length (sm outputs) \<and>
             r = result_dict (map_of DISEASE_INFO_vit (CLASS_NAMES ! i)) (CLASS_NAMES ! i)
                   (sm outputs ! i) (sm outputs)"
  using assms
  by (auto simp: classify_vit_def list_index_def Let_def split: option.splits if_splits)

lemma classify_keras_Inr:
  assumes "classify_keras predictions = Inr r"
  shows "\<exists>row i. list_index predictions 0 = Inr row \<and> argmax row = Some i \<and> i < length CLASSES \<and>
             r = result_dict (map_of DISEASE_INFO_keras (CLASSES ! i)) (CLASSES ! i) (row ! i) row"
  using assms
  by (auto simp: classify_keras_def list_index_def Let_def split: option.splits if_splits sum.splits)

lemma predict_image_vit_result:
  "snd (predict_image_vit env w p) =
     Inr (case snd (predict_image_body_vit env w p) of Inl e \<Rightarrow> None | Inr r \<Rightarrow> Some r)"
  by (simp add: predict_image_vit_def try_except_None split: prod.splits)

lemma predict_image_vit_Some:
  assumes "snd (predict_image_vit env w p) = Inr (Some r)"
  shows "\<exists>outputs. classify_vit (softmax_vit env) outputs = Inr r"
proof -
  from assms have "snd (predict_image_body_vit env w p) = Inr r"
    by (simp add: predict_image_vit_result split: sum.splits)
  then show ?thesis
    by (auto simp: predict_image_body_vit_def Let_def split: option.splits sum.splits)
qed

lemma predict_class_keras_result:
  "snd (predict_class_keras env evs a) =
     Inr (case snd (predict_class_body_keras env evs a) of Inl e \<Rightarrow> None | Inr r \<Rightarrow> Some r)"
  by (simp add: predict_class_keras_def try_except_None split: prod.splits)

lemma predict_class_keras_Some:
  assumes "snd (predict_class_keras env evs a) = Inr (Some r)"
  shows "\<exists>predictions. classify_keras predictions = Inr r"
proof -
  from assms have "snd (predict_class_body_keras env evs a) = Inr r"
    by (simp add: predict_class_keras_result split: sum.splits)
  then show ?thesis
    by (auto simp: predict_class_body_keras_def split: option.splits sum.splits)
qed







lemma sample_predict_image_vit:
  "snd (predict_image_vit sample_env_vit sample_world ''uploads/leaf.png'') =
     Inr (Some (result_dict (map_of DISEASE_INFO_vit ''ROSETTE'') ''ROSETTE''
                  (softmax sample_logits ! 1) (softmax sample_logits)))"
  by (simp add: predict_image_vit_result predict_image_body_vit_def sample_env_vit_def
      sample_world_def classify_vit_def sample_logits_def list_index_def CLASS_NAMES_def Let_def
      length_softmax)

lemma sample_predict_class_keras:
  "snd (predict_class_keras sample_env_keras [] [sample_scores]) =
     Inr (Some (result_dict (map_of DISEASE_INFO_keras ''nutrition_deficiency_1'')
                  ''nutrition_deficiency_1'' (1 / 2) sample_scores))"
  by (simp add: predict_class_keras_result predict_class_body_keras_def sample_env_keras_def
      classify_keras_def sample_scores_def list_index_def CLASSES_def Let_def)



subsection \<open>The knowledge base covers the class lists\<close>

lemma result_dict_fields:
  "map_of tbl label = Some d \<Longrightarrow>
   predicted_class (result_dict (map_of tbl label) label c ps) = name d \<and>
   pred_causes (result_dict (map_of tbl label) label c ps) = causes d \<and>
   pred_cure (result_dict (map_of tbl label) label c ps) = cure d \<and>
   pred_prevention (result_dict (map_of tbl label) label c ps) = prevention d \<and>
   pred_weather_alerts (result_dict (map_of tbl label) label c ps) = weather_alerts d"
  by (simp add: result_dict_def)

lemma class_names_keys: "set CLASS_NAMES \<subseteq> fst ` set DISEASE_INFO_vit"
proof
  fix label assume "label \<in> set CLASS_NAMES"
  from class_names_info [OF this] obtain d where "map_of DISEASE_INFO_vit label = Some d"
    by auto
  then have "(label, d) \<in> set DISEASE_INFO_vit" by (rule map_of_SomeD)
  then show "label \<in> fst ` set DISEASE_INFO_vit" by force
qed

lemma classes_keys: "set CLASSES \<subseteq> fst ` set DISEASE_INFO_keras"
proof
  fix label assume "label \<in> set CLASSES"
  from classes_info [OF this] obtain d where "map_of DISEASE_INFO_keras label = Some d"
    by auto
  then have "(label, d) \<in> set DISEASE_INFO_keras" by (rule map_of_SomeD)
  then show "label \<in> fst ` set DISEASE_INFO_keras" by force
qed

text \<open>
  C9. In each service every label of the class list is a key of that service's
  \<^verbatim>\<open>DISEASE_INFO\<close>. So every successful prediction carries the name, the causes, the
  cure and the prevention of an entry of the dictionary, none of them empty: the defaults
  of the \<^verbatim>\<open>.get\<close> lookups are never used.
\<close>

theorem disease_info_covers_classes:
  fixes env :: "('b, 't) vit_env" and kenv :: "('c, 'a) keras_env"
  shows
  "set CLASS_NAMES \<subseteq> fst ` set DISEASE_INFO_vit \<and>
   set CLASSES \<subseteq> fst ` set DISEASE_INFO_keras \<and>
   (snd (predict_image_vit env w path) = Inr (Some r) \<longrightarrow>
     (\<exists>label d. label \<in> set CLASS_NAMES \<and> map_of DISEASE_INFO_vit label = Some d \<and>
        predicted_class r = name d \<and> pred_causes r = causes d \<and> pred_cure r = cure d \<and>
        pred_prevention r = prevention d \<and> pred_weather_alerts r = weather_alerts d \<and>
        name d \<noteq> [] \<and> causes d \<noteq> [] \<and> cure d \<noteq> [] \<and> prevention d \<noteq> [])) \<and>
   (snd (predict_class_keras kenv evs image_array) = Inr (Some k) \<longrightarrow>
     (\<exists>label d. label \<in> set CLASSES \<and> map_of DISEASE_INFO_keras label = Some d \<and>
        predicted_class k = name d \<and> pred_causes k = causes d \<and> pred_cure k = cure d \<and>
        pred_prevention k = prevention d \<and> pred_weather_alerts k = weather_alerts d \<and>
        name d \<noteq> [] \<and> causes d \<noteq> [] \<and> cure d \<noteq> [] \<and> prevention d \<noteq> []))"
proof (intro conjI impI)
  show "set CLASS_NAMES \<subseteq> fst ` set DISEASE_INFO_vit" by (rule class_names_keys)
  show "set CLASSES \<subseteq> fst ` set DISEASE_INFO_keras" by (rule classes_keys)
next
  assume "snd (predict_image_vit env w path) = Inr (Some r)"
  then obtain outputs where "classify_vit (softmax_vit env) outputs = Inr r"
    using predict_image_vit_Some [of env w path r] by auto
  from classify_vit_Inr [OF this] obtain i where i: "i < length CLASS_NAMES"
    and r: "r = result_dict (map_of DISEASE_INFO_vit (CLASS_NAMES ! i)) (CLASS_NAMES ! i)
                   (softmax_vit env outputs ! i) (softmax_vit env outputs)"
    by auto
  from i have mem: "CLASS_NAMES ! i \<in> set CLASS_NAMES" by simp
  from class_names_info [OF mem] obtain d where d: "map_of DISEASE_INFO_vit (CLASS_NAMES ! i) = Some d"
    and ne: "name d \<noteq> []" "causes d \<noteq> []" "cure d \<noteq> []" "prevention d \<noteq> []"
    by auto
  from result_dict_fields [OF d, of "softmax_vit env outputs ! i" "softmax_vit env outputs"]
  have f: "predicted_class r = name d" "pred_causes r = causes d" "pred_cure r = cure d"
    "pred_prevention r = prevention d" "pred_weather_alerts r = weather_alerts d"
    unfolding r by simp_all
  show "\<exists>label d. label \<in> set CLASS_NAMES \<and> map_of DISEASE_INFO_vit label = Some d \<and>
        predicted_class r = name d \<and> pred_causes r = causes d \<and> pred_cure r = cure d \<and>
        pred_prevention r = prevention d \<and> pred_weather_alerts r = weather_alerts d \<and>
        name d \<noteq> [] \<and> causes d \<noteq> [] \<and> cure d \<noteq> [] \<and> prevention d \<noteq> []"
    using mem d f ne by (intro exI [of _ "CLASS_NAMES ! i"] exI [of _ d] conjI)
next
  assume "snd (predict_class_keras kenv evs image_array) = Inr (Some k)"
  then obtain predictions where "classify_keras predictions = Inr k"
    using predict_class_keras_Some [of kenv evs image_array k] by auto
  from classify_keras_Inr [OF this] obtain row i where i: "i < length CLASSES"
    and r: "k = result_dict (map_of DISEASE_INFO_keras (CLASSES ! i)) (CLASSES ! i) (row ! i) row"
    by auto
  from i have mem: "CLASSES ! i \<in> set CLASSES" by simp
  from classes_info [OF mem] obtain d where d: "map_of DISEASE_INFO_keras (CLASSES ! i) = Some d"
    and ne: "name d \<noteq> []" "causes d \<noteq> []" "cure d \<noteq> []" "prevention d \<noteq> []"
    by auto
  from result_dict_fields [OF d, of "row ! i" row]
  have f: "predicted_class k = name d" "pred_causes k = causes d" "pred_cure k = cure d"
    "pred_prevention k = prevention d" "pred_weather_alerts k = weather_alerts d"
    unfolding r by simp_all
  show "\<exists>label d. label \<in> set CLASSES \<and> map_of DISEASE_INFO_keras label = Some d \<and>
        predicted_class k = name d \<and> pred_causes k = causes d \<and> pred_cure k = cure d \<and>
        pred_prevention k = prevention d \<and> pred_weather_alerts k = weather_alerts d \<and>
        name d \<noteq> [] \<and> causes d \<noteq> [] \<and> cure d \<noteq> [] \<and> prevention d \<noteq> []"
    using mem d f ne by (intro exI [of _ "CLASSES ! i"] exI [of _ d] conjI)
qed

theorem disease_info_covers_classes_witness:
  "(\<exists>r. snd (predict_image_vit sample_env_vit sample_world ''uploads/leaf.png'') = Inr (Some r) \<and>
        predicted_class r = ''Groundnut Rosette Disease'' \<and>
        pred_causes r \<noteq> [] \<and> pred_cure r \<noteq> [] \<and> pred_prevention r \<noteq> []) \<and>
   (\<exists>k. snd (predict_class_keras sample_env_keras [] [sample_scores]) = Inr (Some k) \<and>
        predicted_class k = ''Nutritional Deficiency'' \<and>
        pred_causes k \<noteq> [] \<and> pred_cure k \<noteq> [] \<and> pred_prevention k \<noteq> [])"
proof -
  let ?r = "result_dict (map_of DISEASE_INFO_vit ''ROSETTE'') ''ROSETTE''
              (softmax sample_logits ! 1) (softmax sample_logits)"
  let ?k = "result_dict (map_of DISEASE_INFO_keras ''nutrition_deficiency_1'')
               ''nutrition_deficiency_1'' (1 / 2) sample_scores"
  note inst = disease_info_covers_classes [of sample_env_vit sample_world "''uploads/leaf.png''" "?r"
      sample_env_keras "[]" "[sample_scores]" "?k"]
  from inst [THEN conjunct2, THEN conjunct2, THEN conjunct1, THEN mp, OF sample_predict_image_vit]
  have 1: "pred_causes ?r \<noteq> [] \<and> pred_cure ?r \<noteq> [] \<and> pred_prevention ?r \<noteq> []"
    by (elim exE conjE) simp
  from inst [THEN conjunct2, THEN conjunct2, THEN conjunct2, THEN mp, OF sample_predict_class_keras]
  have 2: "pred_causes ?k \<noteq> [] \<and> pred_cure ?k \<noteq> [] \<and> pred_prevention ?k \<noteq> []"
    by (elim exE conjE) simp
  have 3: "predicted_class ?r = ''Groundnut Rosette Disease''"
    by (simp add: result_dict_def DISEASE_INFO_vit_def)
  have 4: "predicted_class ?k = ''Nutritional Deficiency''"
    by (simp add: result_dict_def DISEASE_INFO_keras_def)
  show ?thesis
    using sample_predict_image_vit sample_predict_class_keras 1 2 3 4
    by (intro conjI exI [of _ "?r"] exI [of _ "?k"]) simp_all
qed

subsection \<open>The Keras classifier never raises\<close>

lemma allowed_file_keras_nonempty: "allowed_file_keras f \<Longrightarrow> f \<noteq> []"
  by (auto simp: allowed_file_keras_def)

lemma classify_keras_out_of_range:
  assumes "list_index predictions 0 = Inr row" and "argmax row = Some i" and "length CLASSES \<le> i"
  shows "classify_keras predictions = Inl IndexError"
  using assms by (simp add: classify_keras_def list_index_def Let_def)

lemma predict_keras_after_preprocess:
  assumes "map_of request_files ''image'' = Some file"
    and "allowed_file_keras (filename file)"
    and "preprocess_keras env (content file) = Inr image_array"
  shows "snd (predict_keras env evs request_files) =
     (case snd (predict_class_keras env (evs @ [Preprocess (filename file)]) image_array) of
        Inl e \<Rightarrow> Inl e
      | Inr None \<Rightarrow> Inr (JsonError ''Error making prediction'' 500)
      | Inr (Some prediction_result) \<Rightarrow> Inr (JsonPrediction prediction_result))"
  using assms allowed_file_keras_nonempty [OF assms(2)]
  by (simp add: predict_keras_def preprocess_image_keras_def try_except_def
      split: prod.splits sum.splits option.splits)

text \<open>
  C10. \<open>predict_class\<close> of the Keras service returns a dictionary or \<open>None\<close> and lets no
  exception through. When the model was not loaded, and when the argmax index of the
  output row is 6 or more, the exception raised inside is caught and the result is
  \<open>None\<close>; the \<^verbatim>\<open>/predict\<close> route answers \<open>None\<close> with the error payload
  \<^verbatim>\<open>Error making prediction\<close> and status 500.
\<close>

theorem predict_class_never_raises:
  fixes env :: "('b, 'a) keras_env"
  shows
  "(\<exists>r. snd (predict_class_keras env evs image_array) = Inr r) \<and>
   (model_keras env = None \<longrightarrow> predict_class_keras env evs image_array = (evs, Inr None)) \<and>
   (\<forall>m predictions row i.
      model_keras env = Some m \<and> m image_array = Inr predictions \<and>
      list_index predictions 0 = Inr row \<and> argmax row = Some i \<and> length CLASSES \<le> i \<longrightarrow>
      snd (predict_class_keras env evs image_array) = Inr None) \<and>
   (\<forall>file.
      map_of request_files ''image'' = Some file \<and> allowed_file_keras (filename file) \<and>
      preprocess_keras env (content file) = Inr image_array \<and>
      snd (predict_class_keras env (evs @ [Preprocess (filename file)]) image_array) = Inr None \<longrightarrow>
      snd (predict_keras env evs request_files) = Inr (JsonError ''Error making prediction'' 500))"
proof (intro conjI impI allI)
  show "\<exists>r. snd (predict_class_keras env evs image_array) = Inr r"
    by (simp add: predict_class_keras_result)
next
  assume "model_keras env = None"
  then show "predict_class_keras env evs image_array = (evs, Inr None)"
    by (simp add: predict_class_keras_def predict_class_body_keras_def try_except_def)
next
  fix m predictions row i
  assume a: "model_keras env = Some m \<and> m image_array = Inr predictions \<and>
      list_index predictions 0 = Inr row \<and> argmax row = Some i \<and> length CLASSES \<le> i"
  then have "classify_keras predictions = Inl IndexError"
    by (intro classify_keras_out_of_range [of predictions row i]) simp_all
  with a show "snd (predict_class_keras env evs image_array) = Inr None"
    by (simp add: predict_class_keras_result predict_class_body_keras_def)
next
  fix u
  assume a: "map_of request_files ''image'' = Some u \<and> allowed_file_keras (filename u) \<and>
      preprocess_keras env (content u) = Inr image_array \<and>
      snd (predict_class_keras env (evs @ [Preprocess (filename u)]) image_array) = Inr None"
  then have "snd (predict_keras env evs request_files) =
     (case snd (predict_class_keras env (evs @ [Preprocess (filename u)]) image_array) of
        Inl e \<Rightarrow> Inl e
      | Inr None \<Rightarrow> Inr (JsonError ''Error making prediction'' 500)
      | Inr (Some prediction_result) \<Rightarrow> Inr (JsonPrediction prediction_result))"
    by (intro predict_keras_after_preprocess) simp_all
  with a show "snd (predict_keras env evs request_files) = Inr (JsonError ''Error making prediction'' 500)"
    by simp
qed

lemma allowed_sample_upload_keras: "allowed_file_keras (filename sample_upload_keras)"
  by (simp add: sample_upload_keras_def allowed_file_keras_def after_last_dot_def lower_def
      lower_char_def ascii_upper_def ascii_lower_def ALLOWED_EXTENSIONS_def)

theorem predict_class_never_raises_witness:
  "predict_class_keras sample_env_unloaded_keras [] [sample_scores] = ([], Inr None) \<and>
   snd (predict_class_keras sample_env_keras [] [sample_seven_scores]) = Inr None \<and>
   snd (predict_keras sample_env_unloaded_keras [] [(''image'', sample_upload_keras)]) =
     Inr (JsonError ''Error making prediction'' 500)"
proof -
  note unloaded = predict_class_never_raises
      [of sample_env_unloaded_keras "[]" "[sample_scores]" "[(''image'', sample_upload_keras)]"]
  note loaded = predict_class_never_raises
      [of sample_env_keras "[]" "[sample_seven_scores]" "[]"]
  have none: "model_keras sample_env_unloaded_keras = None"
    by (simp add: sample_env_unloaded_keras_def)
  from unloaded [THEN conjunct2, THEN conjunct1, THEN mp, OF none]
  have 1: "predict_class_keras sample_env_unloaded_keras [] [sample_scores] = ([], Inr None)" .
  have "model_keras sample_env_keras = Some Inr \<and> Inr [sample_seven_scores] = Inr [sample_seven_scores] \<and>
      list_index [sample_seven_scores] 0 = Inr sample_seven_scores \<and>
      argmax sample_seven_scores = Some 6 \<and> length CLASSES \<le> 6"
    by (simp add: sample_env_keras_def list_index_def sample_seven_scores_def CLASSES_def)
  from loaded [THEN conjunct2, THEN conjunct2, THEN conjunct1, rule_format, OF this]
  have 2: "snd (predict_class_keras sample_env_keras [] [sample_seven_scores]) = Inr None" .
  have "snd (predict_class_keras sample_env_unloaded_keras
               ([] @ [Preprocess (filename sample_upload_keras)]) [sample_scores]) = Inr None"
    by (simp add: predict_class_keras_def predict_class_body_keras_def try_except_def
        sample_env_unloaded_keras_def)
  with allowed_sample_upload_keras
  have "map_of [(''image'', sample_upload_keras)] ''image'' = Some sample_upload_keras \<and>
      allowed_file_keras (filename sample_upload_keras) \<and>
      preprocess_keras sample_env_unloaded_keras (content sample_upload_keras) = Inr [sample_scores] \<and>
      snd (predict_class_keras sample_env_unloaded_keras
             ([] @ [Preprocess (filename sample_upload_keras)]) [sample_scores]) = Inr None"
    by (simp add: sample_env_unloaded_keras_def sample_upload_keras_def)
  from unloaded [THEN conjunct2, THEN conjunct2, THEN conjunct2, rule_format, OF this]
  have 3: "snd (predict_keras sample_env_unloaded_keras [] [(''image'', sample_upload_keras)]) =
     Inr (JsonError ''Error making prediction'' 500)" .
  from 1 2 3 show ?thesis by (intro conjI)
qed

subsection \<open>The upload handlers\<close>

lemma allowed_file_vit_nonempty: "allowed_file_vit f \<Longrightarrow> f \<noteq> []"
  by (auto simp: allowed_file_vit_def)

lemma predict_image_vit_on_disk:
  assumes "disk w p = Some bytes"
  shows "snd (predict_image_vit env w p) = Inr (processed_vit env bytes) \<and>
         disk (fst (predict_image_vit env w p)) = disk w \<and>
         calls (fst (predict_image_vit env w p)) =
           calls w @ Preprocess p #
             (case preprocess_vit env bytes of Inl e \<Rightarrow> [] | Inr img_tensor \<Rightarrow> [Inference])"
  using assms
  by (simp add: predict_image_vit_def predict_image_body_vit_def processed_vit_def
      try_except_def Let_def split: sum.splits)

lemma predict_loop_vit_reject:
  assumes "\<not> allowed_file_vit (filename f)"
  shows "predict_loop_vit env w (f # fs) results =
         predict_loop_vit env w fs (results @ [EntryError (''Invalid file: '' @ filename f)])"
  using assms by simp

lemma predict_loop_vit_accept:
  assumes ok: "allowed_file_vit (filename f)"
    and sv: "save_raises env (path_join UPLOAD_FOLDER (filename f)) = None"
  shows "\<exists>w1. disk w1 = (disk w)(path_join UPLOAD_FOLDER (filename f) \<mapsto> content f) \<and>
           calls w1 = calls w @ file_events_vit env f \<and>
           predict_loop_vit env w (f # fs) results =
             predict_loop_vit env w1 fs (results @ [expected_entry_vit env f])"
proof -
  let ?p = "path_join UPLOAD_FOLDER (filename f)"
  let ?w0 = "w\<lparr>disk := (disk w)(?p \<mapsto> content f), calls := calls w @ [Saved ?p]\<rparr>"
  have d: "disk ?w0 ?p = Some (content f)" by simp
  note pi = predict_image_vit_on_disk [OF d, of env]
  obtain w1 x where pr: "predict_image_vit env ?w0 ?p = (w1, x)"
    by (cases "predict_image_vit env ?w0 ?p")
  with pi have x: "x = Inr (processed_vit env (content f))" by simp
  have ne: "filename f \<noteq> []" using ok by (rule allowed_file_vit_nonempty)
  have 1: "disk w1 = (disk w)(?p \<mapsto> content f)" using pi pr by simp
  have 2: "calls w1 = calls w @ file_events_vit env f"
    using pi pr ok by (simp add: file_events_vit_def)
  have 3: "predict_loop_vit env w (f # fs) results =
             predict_loop_vit env w1 fs (results @ [expected_entry_vit env f])"
    using ok sv ne by (simp add: pr x expected_entry_vit_def Let_def split: option.splits)
  from 1 2 3 show ?thesis by (intro exI [of _ w1] conjI)
qed

lemma predict_loop_vit_trace:
  assumes "\<forall>f \<in> set files. allowed_file_vit (filename f) \<longrightarrow>
             save_raises env (path_join UPLOAD_FOLDER (filename f)) = None"
  shows "snd (predict_loop_vit env w files results) =
           Inr (results @ map (expected_entry_vit env) files) \<and>
         calls (fst (predict_loop_vit env w files results)) =
           calls w @ concat (map (file_events_vit env) files)"
  using assms
proof (induction files arbitrary: w results)
  case Nil
  then show ?case by simp
next
  case (Cons f fs)
  from Cons.prems have rest: "\<forall>f \<in> set fs. allowed_file_vit (filename f) \<longrightarrow>
             save_raises env (path_join UPLOAD_FOLDER (filename f)) = None" by simp
  note IH = Cons.IH [OF rest]
  show ?case
  proof (cases "allowed_file_vit (filename f)")
    case False
    have "predict_loop_vit env w (f # fs) results =
         predict_loop_vit env w fs (results @ [EntryError (''Invalid file: '' @ filename f)])"
      using False by (rule predict_loop_vit_reject)
    with IH [of w "results @ [EntryError (''Invalid file: '' @ filename f)]"] False
    show ?thesis by (simp add: expected_entry_vit_def file_events_vit_def)
  next
    case True
    with Cons.prems have sv: "save_raises env (path_join UPLOAD_FOLDER (filename f)) = None"
      by simp
    from predict_loop_vit_accept [OF True sv, of w fs results]
    obtain w1 where c: "calls w1 = calls w @ file_events_vit env f"
      and st: "predict_loop_vit env w (f # fs) results =
             predict_loop_vit env w1 fs (results @ [expected_entry_vit env f])"
      by auto
    from IH [of w1 "results @ [expected_entry_vit env f]"] c st
    show ?thesis by simp
  qed
qed

lemma getlist_images_nonempty:
  assumes "getlist ''images'' request_files \<noteq> []"
  shows "''images'' \<in> fst ` set request_files"
proof -
  from assms have "filter (\<lambda>kv. fst kv = ''images'') request_files \<noteq> []"
    by (simp add: getlist_def)
  then obtain kv where "kv \<in> set request_files" "fst kv = ''images''"
    by (auto simp: filter_empty_conv)
  then show ?thesis by force
qed

lemma predict_vit_no_field:
  assumes "''images'' \<notin> fst ` set request_files"
  shows "predict_vit env w request_files = (w, Inr (JsonError ''No images provided'' 400))"
  using assms by (simp add: predict_vit_def)

lemma predict_vit_no_names:
  assumes "''images'' \<in> fst ` set request_files"
    and "\<forall>f \<in> set (getlist ''images'' request_files). filename f = []"
  shows "predict_vit env w request_files = (w, Inr (JsonError ''No files selected'' 400))"
  using assms by (simp add: predict_vit_def Let_def list_all_iff)

lemma predict_vit_loop:
  assumes "\<exists>f \<in> set (getlist ''images'' request_files). filename f \<noteq> []"
    and "predict_loop_vit env w (getlist ''images'' request_files) [] = (w1, res)"
  shows "predict_vit env w request_files = (w1, map_sum id JsonList res)"
proof -
  from assms(1) have ne: "getlist ''images'' request_files \<noteq> []" by auto
  from assms(1) have some: "\<not> list_all (\<lambda>f. filename f = []) (getlist ''images'' request_files)"
    by (auto simp: list_all_iff)
  from ne have key: "''images'' \<in> fst ` set request_files"
    by (rule getlist_images_nonempty)
  from key ne some assms(2) show ?thesis
    by (simp add: predict_vit_def Let_def del: predict_loop_vit.simps)
qed



lemma predict_vit_all_saved:
  assumes "\<exists>f \<in> set (getlist ''images'' request_files). filename f \<noteq> []"
    and "\<forall>f \<in> set (getlist ''images'' request_files). allowed_file_vit (filename f) \<longrightarrow>
           save_raises env (path_join UPLOAD_FOLDER (filename f)) = None"
  shows "snd (predict_vit env w request_files) =
           Inr (JsonList (map (expected_entry_vit env) (getlist ''images'' request_files))) \<and>
         calls (fst (predict_vit env w request_files)) =
           calls w @ concat (map (file_events_vit env) (getlist ''images'' request_files))"
proof -
  obtain w1 res where lp: "predict_loop_vit env w (getlist ''images'' request_files) [] = (w1, res)"
    by (cases "predict_loop_vit env w (getlist ''images'' request_files) []")
  from predict_loop_vit_trace [OF assms(2), of w "[]"] lp
  have res: "res = Inr (map (expected_entry_vit env) (getlist ''images'' request_files))"
    and cl: "calls w1 = calls w @ concat (map (file_events_vit env) (getlist ''images'' request_files))"
    by simp_all
  from predict_vit_loop [OF assms(1) lp] res cl show ?thesis by simp
qed

text \<open>
  C6, as amended. For a request whose uploads were parsed (its body within
  \<^verbatim>\<open>MAX_CONTENT_LENGTH\<close>): a request without the field \<open>images\<close>, and one whose uploads
  under \<open>images\<close> all lack a file name, gets a single error object with status 400. Any
  other request, provided that writing each accepted upload to the upload folder does not
  raise, gets exactly one entry per upload, in upload order: the prediction for an upload
  that is valid and processed successfully, an error entry for one that is invalid or
  fails processing. Each entry, and each effect, depends on its own upload only.
\<close>

theorem predict_vit_one_entry_per_file:
  fixes env :: "('b, 't) vit_env"
  shows
  "(''images'' \<notin> fst ` set request_files \<longrightarrow>
      predict_vit env w request_files = (w, Inr (JsonError ''No images provided'' 400))) \<and>
   (''images'' \<in> fst ` set request_files \<and>
    (\<forall>f \<in> set (getlist ''images'' request_files). filename f = []) \<longrightarrow>
      predict_vit env w request_files = (w, Inr (JsonError ''No files selected'' 400))) \<and>
   ((\<exists>f \<in> set (getlist ''images'' request_files). filename f \<noteq> []) \<and>
    (\<forall>f \<in> set (getlist ''images'' request_files). allowed_file_vit (filename f) \<longrightarrow>
           save_raises env (path_join UPLOAD_FOLDER (filename f)) = None) \<longrightarrow>
      snd (predict_vit env w request_files) =
        Inr (JsonList (map (expected_entry_vit env) (getlist ''images'' request_files))) \<and>
      length (map (expected_entry_vit env) (getlist ''images'' request_files)) =
        length (getlist ''images'' request_files) \<and>
      calls (fst (predict_vit env w request_files)) =
        calls w @ concat (map (file_events_vit env) (getlist ''images'' request_files)))"
proof (intro conjI impI)
  assume "''images'' \<notin> fst ` set request_files"
  then show "predict_vit env w request_files = (w, Inr (JsonError ''No images provided'' 400))"
    by (rule predict_vit_no_field)
next
  assume a: "''images'' \<in> fst ` set request_files \<and>
    (\<forall>f \<in> set (getlist ''images'' request_files). filename f = [])"
  then show "predict_vit env w request_files = (w, Inr (JsonError ''No files selected'' 400))"
    by (intro predict_vit_no_names) simp_all
next
  assume a: "(\<exists>f \<in> set (getlist ''images'' request_files). filename f \<noteq> []) \<and>
    (\<forall>f \<in> set (getlist ''images'' request_files). allowed_file_vit (filename f) \<longrightarrow>
           save_raises env (path_join UPLOAD_FOLDER (filename f)) = None)"
  then have r: "snd (predict_vit env w request_files) =
           Inr (JsonList (map (expected_entry_vit env) (getlist ''images'' request_files))) \<and>
         calls (fst (predict_vit env w request_files)) =
           calls w @ concat (map (file_events_vit env) (getlist ''images'' request_files))"
    by (intro predict_vit_all_saved) simp_all
  from r show "snd (predict_vit env w request_files) =
        Inr (JsonList (map (expected_entry_vit env) (getlist ''images'' request_files)))" by simp
  show "length (map (expected_entry_vit env) (getlist ''images'' request_files)) =
        length (getlist ''images'' request_files)" by simp
  from r show "calls (fst (predict_vit env w request_files)) =
        calls w @ concat (map (file_events_vit env) (getlist ''images'' request_files))" by simp
qed

lemma allowed_samples:
  "allowed_file_vit ''leaf.png''" "\<not> allowed_file_vit ''notes.txt''"
  "allowed_file_vit ''blank.JPEG''" "allowed_file_vit ''field/leaf.png''"
  by (simp_all add: allowed_file_vit_def after_last_dot_def lower_def
      lower_char_def ascii_upper_def ascii_lower_def)

lemma processed_sample_logits:
  "processed_vit sample_env_vit sample_logits =
     Some (result_dict (map_of DISEASE_INFO_vit ''ROSETTE'') ''ROSETTE''
             (softmax sample_logits ! 1) (softmax sample_logits))"
  by (simp add: processed_vit_def sample_env_vit_def classify_vit_def sample_logits_def
      list_index_def CLASS_NAMES_def Let_def length_softmax)

lemma processed_blank: "processed_vit sample_env_vit [] = None"
  by (simp add: processed_vit_def sample_env_vit_def classify_vit_def Let_def)

lemma getlist_samples:
  "getlist ''images'' sample_request_vit =
     [sample_leaf_upload, sample_notes_upload, sample_blank_upload]"
  "getlist ''images'' sample_subdir_request_vit = [sample_leaf_upload, sample_subdir_upload]"
  "getlist ''images'' sample_blocked_request_vit = [sample_subdir_upload, sample_notes_upload]"
  by (simp_all add: getlist_def sample_request_vit_def sample_subdir_request_vit_def
      sample_blocked_request_vit_def)

lemma sample_expected_entries:
  "map (expected_entry_vit sample_env_vit)
       [sample_leaf_upload, sample_notes_upload, sample_blank_upload] =
     [Prediction (result_dict (map_of DISEASE_INFO_vit ''ROSETTE'') ''ROSETTE''
                    (softmax sample_logits ! 1) (softmax sample_logits)),
      EntryError ''Invalid file: notes.txt'',
      EntryError ''Failed to process image'']"
  by (simp add: expected_entry_vit_def sample_leaf_upload_def sample_notes_upload_def
      sample_blank_upload_def allowed_samples processed_sample_logits processed_blank)

lemma sample_events:
  "concat (map (file_events_vit sample_env_vit)
       [sample_leaf_upload, sample_notes_upload, sample_blank_upload]) =
     [Saved ''uploads/leaf.png'', Preprocess ''uploads/leaf.png'', Inference,
      Saved ''uploads/blank.JPEG'', Preprocess ''uploads/blank.JPEG'', Inference]"
  by (simp add: file_events_vit_def sample_leaf_upload_def sample_notes_upload_def
      sample_blank_upload_def allowed_samples sample_env_vit_def path_join_def
      UPLOAD_FOLDER_def startswith_def)

lemma sample_request_hyps:
  "(\<exists>f \<in> set (getlist ''images'' sample_request_vit). filename f \<noteq> []) \<and>
   (\<forall>f \<in> set (getlist ''images'' sample_request_vit). allowed_file_vit (filename f) \<longrightarrow>
      save_raises sample_env_vit (path_join UPLOAD_FOLDER (filename f)) = None)"
  by (simp add: getlist_samples sample_leaf_upload_def sample_env_vit_def)

theorem predict_vit_one_entry_per_file_witness:
  "predict_vit sample_env_vit empty_world [] =
     (empty_world, Inr (JsonError ''No images provided'' 400)) \<and>
   predict_vit sample_env_vit empty_world sample_unnamed_request_vit =
     (empty_world, Inr (JsonError ''No files selected'' 400)) \<and>
   snd (predict_vit sample_env_vit empty_world sample_request_vit) =
     Inr (JsonList
       [Prediction (result_dict (map_of DISEASE_INFO_vit ''ROSETTE'') ''ROSETTE''
                      (softmax sample_logits ! 1) (softmax sample_logits)),
        EntryError ''Invalid file: notes.txt'',
        EntryError ''Failed to process image'']) \<and>
   calls (fst (predict_vit sample_env_vit empty_world sample_request_vit)) =
     [Saved ''uploads/leaf.png'', Preprocess ''uploads/leaf.png'', Inference,
      Saved ''uploads/blank.JPEG'', Preprocess ''uploads/blank.JPEG'', Inference]"
proof -
  have h1: "''images'' \<notin> fst ` set ([] :: (string \<times> real list upload) list)" by simp
  from predict_vit_one_entry_per_file [of "[]" sample_env_vit empty_world,
      THEN conjunct1, THEN mp, OF h1]
  have 1: "predict_vit sample_env_vit empty_world [] =
     (empty_world, Inr (JsonError ''No images provided'' 400))" .
  have h2: "''images'' \<in> fst ` set sample_unnamed_request_vit \<and>
    (\<forall>f \<in> set (getlist ''images'' sample_unnamed_request_vit). filename f = [])"
    by (simp add: sample_unnamed_request_vit_def getlist_def)
  from predict_vit_one_entry_per_file [of sample_unnamed_request_vit sample_env_vit empty_world,
      THEN conjunct2, THEN conjunct1, THEN mp, OF h2]
  have 2: "predict_vit sample_env_vit empty_world sample_unnamed_request_vit =
     (empty_world, Inr (JsonError ''No files selected'' 400))" .
  note run = predict_vit_one_entry_per_file [of sample_request_vit sample_env_vit empty_world,
      THEN conjunct2, THEN conjunct2, THEN mp, OF sample_request_hyps]
  from run [unfolded getlist_samples sample_expected_entries sample_events]
  have 3: "snd (predict_vit sample_env_vit empty_world sample_request_vit) =
     Inr (JsonList
       [Prediction (result_dict (map_of DISEASE_INFO_vit ''ROSETTE'') ''ROSETTE''
                      (softmax sample_logits ! 1) (softmax sample_logits)),
        EntryError ''Invalid file: notes.txt'',
        EntryError ''Failed to process image''])"
    and 4: "calls (fst (predict_vit sample_env_vit empty_world sample_request_vit)) =
     [Saved ''uploads/leaf.png'', Preprocess ''uploads/leaf.png'', Inference,
      Saved ''uploads/blank.JPEG'', Preprocess ''uploads/blank.JPEG'', Inference]"
    by (simp_all add: empty_world_def)
  from 1 2 3 4 show ?thesis by (intro conjI)
qed

lemma sample_subdir_run:
  "\<exists>w1. calls w1 = [Saved ''uploads/leaf.png'', Preprocess ''uploads/leaf.png'', Inference] \<and>
        predict_vit sample_env_no_subdir_vit empty_world sample_subdir_request_vit =
          (w1, Inl (LibraryError ''FileNotFoundError''))"
proof -
  have ok1: "allowed_file_vit (filename sample_leaf_upload)"
    by (simp add: sample_leaf_upload_def allowed_samples)
  have sv1: "save_raises sample_env_no_subdir_vit
               (path_join UPLOAD_FOLDER (filename sample_leaf_upload)) = None"
    by (simp add: sample_env_no_subdir_vit_def sample_leaf_upload_def path_join_def
        UPLOAD_FOLDER_def startswith_def)
  have ok2: "allowed_file_vit (filename sample_subdir_upload)"
    by (simp add: sample_subdir_upload_def allowed_samples)
  have sv2: "save_raises sample_env_no_subdir_vit
               (path_join UPLOAD_FOLDER (filename sample_subdir_upload)) =
             Some (LibraryError ''FileNotFoundError'')"
    by (simp add: sample_env_no_subdir_vit_def sample_subdir_upload_def path_join_def
        UPLOAD_FOLDER_def startswith_def)
  have ne2: "filename sample_subdir_upload \<noteq> []"
    using ok2 by (rule allowed_file_vit_nonempty)
  have ev: "file_events_vit sample_env_no_subdir_vit sample_leaf_upload =
      [Saved ''uploads/leaf.png'', Preprocess ''uploads/leaf.png'', Inference]"
    by (simp add: file_events_vit_def sample_leaf_upload_def allowed_samples
        sample_env_no_subdir_vit_def path_join_def UPLOAD_FOLDER_def startswith_def)
  from predict_loop_vit_accept [OF ok1 sv1, of empty_world "[sample_subdir_upload]" "[]"]
  obtain w1 where c: "calls w1 = calls empty_world @ file_events_vit sample_env_no_subdir_vit sample_leaf_upload"
    and st: "predict_loop_vit sample_env_no_subdir_vit empty_world
        [sample_leaf_upload, sample_subdir_upload] [] =
      predict_loop_vit sample_env_no_subdir_vit w1 [sample_subdir_upload]
        ([] @ [expected_entry_vit sample_env_no_subdir_vit sample_leaf_upload])"
    by auto
  have "predict_loop_vit sample_env_no_subdir_vit w1 [sample_subdir_upload]
        ([] @ [expected_entry_vit sample_env_no_subdir_vit sample_leaf_upload]) =
      (w1, Inl (LibraryError ''FileNotFoundError''))"
    using ok2 sv2 ne2 by (simp add: Let_def)
  with st have lp: "predict_loop_vit sample_env_no_subdir_vit empty_world
        (getlist ''images'' sample_subdir_request_vit) [] =
      (w1, Inl (LibraryError ''FileNotFoundError''))"
    by (simp add: getlist_samples)
  have nm: "\<exists>f \<in> set (getlist ''images'' sample_subdir_request_vit). filename f \<noteq> []"
    using ne2 by (simp add: getlist_samples)
  from predict_vit_loop [OF nm lp]
  have pv: "predict_vit sample_env_no_subdir_vit empty_world sample_subdir_request_vit =
        (w1, Inl (LibraryError ''FileNotFoundError''))"
    by simp
  have c': "calls w1 = [Saved ''uploads/leaf.png'', Preprocess ''uploads/leaf.png'', Inference]"
    using c by (simp add: ev empty_world_def)
  from c' pv show ?thesis by (intro exI [of _ w1] conjI)
qed


text \<open>
  The claim as stated fails on a request whose two upload parts have no file name: the
  answer is one error object with status 400, not two entries. It also fails when the
  second of two valid uploads cannot be written: the exception leaves the handler and the
  entry of the first upload is lost with it.
\<close>

theorem predict_vit_one_entry_per_file_counterexample:
  "length (getlist ''images'' sample_unnamed_request_vit) = 2 \<and>
   predict_vit sample_env_vit empty_world sample_unnamed_request_vit =
     (empty_world, Inr (JsonError ''No files selected'' 400)) \<and>
   length (getlist ''images'' sample_subdir_request_vit) = 2 \<and>
   snd (predict_vit sample_env_no_subdir_vit empty_world sample_subdir_request_vit) =
     Inl (LibraryError ''FileNotFoundError'')"
proof -
  have 1: "predict_vit sample_env_vit empty_world sample_unnamed_request_vit =
     (empty_world, Inr (JsonError ''No files selected'' 400))"
    by (simp add: predict_vit_def sample_unnamed_request_vit_def getlist_def)
  from sample_subdir_run
  have 2: "snd (predict_vit sample_env_no_subdir_vit empty_world sample_subdir_request_vit) =
     Inl (LibraryError ''FileNotFoundError'')"
    by auto
  have 3: "length (getlist ''images'' sample_unnamed_request_vit) = 2"
    by (simp add: sample_unnamed_request_vit_def getlist_def)
  have 4: "length (getlist ''images'' sample_subdir_request_vit) = 2"
    by (simp add: getlist_samples)
  from 3 1 4 2 show ?thesis by (intro conjI)
qed












subsection \<open>The weather fetchers\<close>

text \<open>
  C7. The claim is that every weather request calls the external API with a fixed timeout.
  The ViT service passes \<^verbatim>\<open>timeout=10\<close>; the Keras service calls \<^verbatim>\<open>requests.get(url)\<close>
  with no timeout at all, for the default city as for any other: its call is the one of
  the ViT service with the timeout left out.
\<close>

theorem keras_weather_request_without_timeout:
  "timeout (weather_request_keras ''eMpangeni'') = None \<and>
   timeout (weather_request_vit ''eMpangeni'') = Some 10 \<and>
   get_weather_keras requests_get city =
     try_except (weather_body requests_get \<lparr>url = weather_url city, timeout = None\<rparr>
                   ''Failed to fetch weather'')
       (\<lambda>e. Inr [(''error'', StrOfExn e)])"
  by (simp add: weather_request_keras_def weather_request_vit_def get_weather_keras_def)

lemma snapshot_well_formed:
  assumes "well_formed_body data = Some (temp, hum, txt)"
  shows "snapshot data =
     Inr [(''temp'', FromJson temp), (''humidity'', FromJson hum),
          (''weather'', FromJson (JStr txt)),
          (''rain'', FromJson (JBool (contains_str ''rain'' (lower txt))))]"
  using assms
  by (auto simp: well_formed_body_def snapshot_def subscript_def str_lower_def
      split: json.splits option.splits)

lemma snapshot_malformed:
  assumes "well_formed_body data = None"
  shows "\<exists>e. snapshot data = Inl e"
  using assms
  by (auto simp: well_formed_body_def snapshot_def subscript_def str_lower_def
      split: json.splits option.splits)

lemma error_payload_sent:
  assumes "sent_message fb data = Some msg"
  shows "error_payload fb data = Inr [(''error'', FromJson msg)]"
  using assms
  by (auto simp: sent_message_def error_payload_def dict_get_def
      split: json.splits option.splits)

lemma error_payload_malformed:
  assumes "sent_message fb data = None"
  shows "\<exists>e. error_payload fb data = Inl e"
  using assms
  by (auto simp: sent_message_def error_payload_def dict_get_def
      split: json.splits option.splits)

lemma weather_try_answer:
  "\<exists>d. try_except (weather_body rg req fb) (\<lambda>e. Inr [(''error'', StrOfExn e)]) = Inr d \<and>
       weather_answer fb (rg req) d"
proof (cases "rg req")
  case (Inl e)
  then show ?thesis
    by (simp add: weather_body_def try_except_def weather_answer_def)
next
  case res: (Inr res)
  show ?thesis
  proof (cases "json_body res")
    case (Inl e)
    with res show ?thesis
      by (simp add: weather_body_def try_except_def weather_answer_def)
  next
    case data: (Inr data)
    show ?thesis
    proof (cases "status_code res = 200")
      case True
      show ?thesis
      proof (cases "well_formed_body data")
        case None
        from snapshot_malformed [OF None] obtain e where "snapshot data = Inl e" by auto
        with res data True None show ?thesis
          by (simp add: weather_body_def try_except_def weather_answer_def)
      next
        case (Some f)
        obtain temp hum tx where f: "f = (temp, hum, tx)" by (cases f)
        from snapshot_well_formed [of data temp hum tx] Some f res data True show ?thesis
          by (simp add: weather_body_def try_except_def weather_answer_def)
      qed
    next
      case False
      show ?thesis
      proof (cases "sent_message fb data")
        case None
        from error_payload_malformed [OF None] obtain e where "error_payload fb data = Inl e"
          by auto
        with res data False None show ?thesis
          by (simp add: weather_body_def try_except_def weather_answer_def)
      next
        case (Some msg)
        from error_payload_sent [OF Some] res data False Some show ?thesis
          by (simp add: weather_body_def try_except_def weather_answer_def)
      qed
    qed
  qed
qed

text \<open>
  C3, as amended. Whatever the city and whatever the external call does, \<open>get_weather\<close> of
  either service raises nothing and returns the dictionary owed to the outcome: the
  snapshot with the keys \<open>temp\<close>, \<open>humidity\<close>, \<open>weather\<close>, \<open>rain\<close> for a status 200 with a
  well-formed body; otherwise a dictionary with the single key \<open>error\<close>, whose value is the
  text of the exception caught (the call raised, the body is no JSON, a key of a
  status-200 body is missing or malformed, the body of another status is no object) or,
  for another status, the message of the body as it was sent, the fallback text where
  there is none. The message sent is any JSON value, not necessarily a string.
\<close>

theorem get_weather_never_raises:
  "(\<exists>d. get_weather_vit requests_get city = Inr d \<and>
        weather_answer ''Weather fetch failed'' (requests_get (weather_request_vit city)) d) \<and>
   (\<exists>d. get_weather_keras requests_get city = Inr d \<and>
        weather_answer ''Failed to fetch weather'' (requests_get (weather_request_keras city)) d)"
  unfolding get_weather_vit_def get_weather_keras_def
  by (intro conjI weather_try_answer)

theorem get_weather_never_raises_witness:
  "get_weather_vit sample_http_good ''eMpangeni'' =
     Inr [(''temp'', FromJson (JNum 24)), (''humidity'', FromJson (JNum 85)),
          (''weather'', FromJson (JStr ''Light Rain'')), (''rain'', FromJson (JBool True))] \<and>
   get_weather_keras sample_http_down ''eMpangeni'' =
     Inr [(''error'', StrOfExn (LibraryError ''ConnectionError''))] \<and>
   (\<exists>d. get_weather_vit sample_http_missing_key ''eMpangeni'' = Inr d \<and> is_exception_payload d) \<and>
   get_weather_keras sample_http_unknown_city ''Atlantis'' =
     Inr [(''error'', FromJson (JStr ''No matching location found.''))]"
proof -
  have wf: "well_formed_body sample_good_body = Some (JNum 24, JNum 85, ''Light Rain'')"
    by (simp add: well_formed_body_def sample_good_body_def)
  have rain: "contains_str ''rain'' (lower ''Light Rain'')"
    by (simp add: lower_def lower_char_def ascii_upper_def ascii_lower_def startswith_def)
  from get_weather_never_raises [of sample_http_good "''eMpangeni''", THEN conjunct1]
  have 1: "get_weather_vit sample_http_good ''eMpangeni'' =
     Inr [(''temp'', FromJson (JNum 24)), (''humidity'', FromJson (JNum 85)),
          (''weather'', FromJson (JStr ''Light Rain'')), (''rain'', FromJson (JBool True))]"
    using wf rain by (auto simp: weather_answer_def sample_http_good_def)
  from get_weather_never_raises [of sample_http_down "''eMpangeni''", THEN conjunct2]
  have 2: "get_weather_keras sample_http_down ''eMpangeni'' =
     Inr [(''error'', StrOfExn (LibraryError ''ConnectionError''))]"
    by (auto simp: weather_answer_def sample_http_down_def)
  from get_weather_never_raises [of sample_http_missing_key "''eMpangeni''", THEN conjunct1]
  have 3: "\<exists>d. get_weather_vit sample_http_missing_key ''eMpangeni'' = Inr d \<and> is_exception_payload d"
    by (auto simp: weather_answer_def sample_http_missing_key_def well_formed_body_def)
  from get_weather_never_raises [of sample_http_unknown_city "''Atlantis''", THEN conjunct2]
  have 4: "get_weather_keras sample_http_unknown_city ''Atlantis'' =
     Inr [(''error'', FromJson (JStr ''No matching location found.''))]"
    by (auto simp: weather_answer_def sample_http_unknown_city_def sent_message_def)
  from 1 2 3 4 show ?thesis by (intro conjI)
qed

text \<open>
  The claim as stated fails where it calls the value under \<open>error\<close> a message string: the
  message of a status-400 body is handed on as it was sent, here the number 42.
\<close>

theorem get_weather_never_raises_counterexample:
  "get_weather_vit sample_http_numeric_message ''eMpangeni'' = Inr [(''error'', FromJson (JNum 42))] \<and>
   get_weather_keras sample_http_numeric_message ''eMpangeni'' = Inr [(''error'', FromJson (JNum 42))]"
  by (simp add: get_weather_vit_def get_weather_keras_def try_except_def weather_body_def
      sample_http_numeric_message_def error_payload_def dict_get_def)

subsection \<open>Checkpoint loading\<close>

lemma strip_module_prefixed: "strip_module (''module.'' @ k) = k"
  by (simp add: strip_module_def startswith_def)

lemma strip_module_prefixed_cons:
  "strip_module (CHR ''m'' # CHR ''o'' # CHR ''d'' # CHR ''u'' # CHR ''l'' # CHR ''e'' # CHR ''.'' # k) = k"
  using strip_module_prefixed [of k] by simp

lemma strip_module_plain: "\<not> startswith k ''module.'' \<Longrightarrow> strip_module k = k"
  by (simp add: strip_module_def)

lemma update_fresh: "k \<notin> fst ` set al \<Longrightarrow> AList.update k v al = al @ [(k, v)]"
  by (induction al) auto

lemma foldl_update_distinct:
  assumes "distinct (map fst acc @ map (\<lambda>kv. strip_module (fst kv)) items)"
  shows "foldl (\<lambda>new kv. AList.update (strip_module (fst kv)) (snd kv) new) acc items =
         acc @ map (\<lambda>kv. (strip_module (fst kv), snd kv)) items"
  using assms
proof (induction items arbitrary: acc)
  case Nil
  then show ?case by simp
next
  case (Cons kv items)
  from Cons.prems have fresh: "strip_module (fst kv) \<notin> fst ` set acc" by auto
  from Cons.prems have d: "distinct (map fst (acc @ [(strip_module (fst kv), snd kv)]) @
      map (\<lambda>kv. strip_module (fst kv)) items)" by auto
  from Cons.IH [OF d] update_fresh [OF fresh, of "snd kv"] show ?case by simp
qed

lemma new_checkpoint_distinct:
  assumes "distinct (map (\<lambda>kv. strip_module (fst kv)) items)"
  shows "new_checkpoint items = map (\<lambda>kv. (strip_module (fst kv), snd kv)) items"
  using foldl_update_distinct [of "[]" items] assms by (simp add: new_checkpoint_def)

lemma new_checkpoint_plain:
  assumes "distinct (map fst c)" and "\<forall>k \<in> fst ` set c. \<not> startswith k ''module.''"
  shows "new_checkpoint c = c"
proof -
  have m: "map (\<lambda>kv. strip_module (fst kv)) c = map fst c"
    using assms(2) by (auto simp: strip_module_plain)
  have "map (\<lambda>kv. (strip_module (fst kv), snd kv)) c = c"
    using assms(2) by (induction c) (auto simp: strip_module_plain)
  with new_checkpoint_distinct [of c] m assms(1) show ?thesis by simp
qed

lemma new_checkpoint_prefixed:
  assumes "distinct (map fst c)"
  shows "new_checkpoint (add_module_prefix c) = c"
proof -
  have m: "map (\<lambda>kv. strip_module (fst kv)) (add_module_prefix c) = map fst c"
    by (simp add: add_module_prefix_def strip_module_prefixed_cons comp_def)
  have "map (\<lambda>kv. (strip_module (fst kv), snd kv)) (add_module_prefix c) = c"
    by (simp add: add_module_prefix_def strip_module_prefixed_cons comp_def)
  with new_checkpoint_distinct [of "add_module_prefix c"] m assms show ?thesis by simp
qed

lemma new_checkpoint_snoc:
  "new_checkpoint (items @ [(key, v)]) = AList.update (strip_module key) v (new_checkpoint items)"
  by (simp add: new_checkpoint_def)

lemma map_of_foldl_update:
  "map_of (foldl (\<lambda>new kv. AList.update (strip_module (fst kv)) (snd kv) new) acc items) =
   map_of (rev (map (\<lambda>kv. (strip_module (fst kv), snd kv)) items) @ acc)"
proof (induction items arbitrary: acc)
  case Nil
  then show ?case by simp
next
  case (Cons kv items)
  show ?case
    by (simp add: Cons.IH update_conv')
qed

lemma map_of_new_checkpoint:
  "map_of (new_checkpoint items) = map_of (rev (map (\<lambda>kv. (strip_module (fst kv), snd kv)) items))"
  using map_of_foldl_update [of "[]" items] by (simp add: new_checkpoint_def)

text \<open>
  C4, as amended. \<open>load_model\<close> normalizes the keys of the checkpoint before loading: item
  by item, in order, a value is stored under its key without a leading \<^verbatim>\<open>module.\<close>, or
  under its key as it is, and an item stored later replaces an earlier one under the same
  key. When no two keys coincide after stripping, the normalized dictionary is the
  checkpoint with every key stripped. A state dictionary none of whose keys starts with
  \<^verbatim>\<open>module.\<close> loads into the same model state whether its keys were saved with the prefix
  or without.
\<close>

theorem load_model_strips_module_prefix:
  "strip_module (''module.'' @ k) = k \<and>
   (\<not> startswith k ''module.'' \<longrightarrow> strip_module k = k) \<and>
   new_checkpoint ([] :: (string \<times> 'v) list) = [] \<and>
   new_checkpoint (items @ [(key, v)]) =
     AList.update (strip_module key) v (new_checkpoint (items :: (string \<times> 'v) list)) \<and>
   map_of (new_checkpoint items) =
     map_of (rev (map (\<lambda>kv. (strip_module (fst kv), snd kv)) items)) \<and>
   (distinct (map (\<lambda>kv. strip_module (fst kv)) items) \<longrightarrow>
      new_checkpoint items = map (\<lambda>kv. (strip_module (fst kv), snd kv)) items) \<and>
   (distinct (map fst c) \<and> (\<forall>k \<in> fst ` set c. \<not> startswith k ''module.'') \<and>
    (\<exists>l1 l2. torch_load p1 = Inr l1 \<and> unwrap_state_dict l1 = Dict (add_module_prefix c) \<and>
             torch_load p2 = Inr l2 \<and> unwrap_state_dict l2 = Dict c) \<longrightarrow>
      load_model torch_load load_state_dict p1 = load_state_dict c \<and>
      load_model torch_load load_state_dict p2 = load_state_dict c)"
proof (intro conjI impI)
  show "strip_module (''module.'' @ k) = k" by (rule strip_module_prefixed)
next
  assume "\<not> startswith k ''module.''"
  then show "strip_module k = k" by (rule strip_module_plain)
next
  show "new_checkpoint ([] :: (string \<times> 'v) list) = []" by (simp add: new_checkpoint_def)
next
  show "new_checkpoint (items @ [(key, v)]) =
     AList.update (strip_module key) v (new_checkpoint items)"
    by (rule new_checkpoint_snoc)
next
  show "map_of (new_checkpoint items) =
     map_of (rev (map (\<lambda>kv. (strip_module (fst kv), snd kv)) items))"
    by (rule map_of_new_checkpoint)
next
  assume "distinct (map (\<lambda>kv. strip_module (fst kv)) items)"
  then show "new_checkpoint items = map (\<lambda>kv. (strip_module (fst kv), snd kv)) items"
    by (rule new_checkpoint_distinct)
next
  assume a: "distinct (map fst c) \<and> (\<forall>k \<in> fst ` set c. \<not> startswith k ''module.'') \<and>
    (\<exists>l1 l2. torch_load p1 = Inr l1 \<and> unwrap_state_dict l1 = Dict (add_module_prefix c) \<and>
             torch_load p2 = Inr l2 \<and> unwrap_state_dict l2 = Dict c)"
  then obtain l1 l2 where l: "torch_load p1 = Inr l1" "unwrap_state_dict l1 = Dict (add_module_prefix c)"
      "torch_load p2 = Inr l2" "unwrap_state_dict l2 = Dict c"
    by auto
  from a have 1: "new_checkpoint (add_module_prefix c) = c"
    by (intro new_checkpoint_prefixed) simp
  from a have 2: "new_checkpoint c = c"
    by (intro new_checkpoint_plain) simp_all
  from l 1 show "load_model torch_load load_state_dict p1 = load_state_dict c"
    by (simp add: load_model_def)
  from l 2 show "load_model torch_load load_state_dict p2 = load_state_dict c"
    by (simp add: load_model_def)
qed

theorem load_model_strips_module_prefix_witness:
  "strip_module ''pos_embedding'' = ''pos_embedding'' \<and>
   new_checkpoint (add_module_prefix sample_state_dict) = sample_state_dict \<and>
   map_of (new_checkpoint sample_clash_dict) ''a'' = Some (Tensor 2) \<and>
   load_model sample_torch_load Inr ''parallel.pth'' = Inr sample_state_dict \<and>
   load_model sample_torch_load Inr ''plain.pth'' = Inr sample_state_dict"
proof -
  note plain = load_model_strips_module_prefix
     [where k = "''pos_embedding''" and items = "add_module_prefix sample_state_dict"
        and c = sample_state_dict and torch_load = sample_torch_load
        and ?p1.0 = "''parallel.pth''" and ?p2.0 = "''plain.pth''" and load_state_dict = Inr]
  note clash = load_model_strips_module_prefix
     [where items = sample_clash_dict and c = sample_state_dict]
  have h2: "\<not> startswith ''pos_embedding'' ''module.''"
    by (simp add: startswith_def)
  from plain [THEN conjunct2, THEN conjunct1, THEN mp, OF h2]
  have 0: "strip_module ''pos_embedding'' = ''pos_embedding''" .
  have h6: "distinct (map (\<lambda>kv. strip_module (fst kv)) (add_module_prefix sample_state_dict))"
    by (simp add: add_module_prefix_def sample_state_dict_def strip_module_def startswith_def)
  from plain [THEN conjunct2, THEN conjunct2, THEN conjunct2, THEN conjunct2, THEN conjunct2,
      THEN conjunct1, THEN mp, OF h6]
  have 3: "new_checkpoint (add_module_prefix sample_state_dict) = sample_state_dict"
    by (simp add: add_module_prefix_def sample_state_dict_def strip_module_def startswith_def)
  from clash [THEN conjunct2, THEN conjunct2, THEN conjunct2, THEN conjunct2, THEN conjunct1]
  have 4: "map_of (new_checkpoint sample_clash_dict) ''a'' = Some (Tensor 2)"
    by (simp add: sample_clash_dict_def strip_module_def startswith_def)
  have h: "distinct (map fst sample_state_dict) \<and>
    (\<forall>k \<in> fst ` set sample_state_dict. \<not> startswith k ''module.'') \<and>
    (\<exists>l1 l2. sample_torch_load ''parallel.pth'' = Inr l1 \<and>
             unwrap_state_dict l1 = Dict (add_module_prefix sample_state_dict) \<and>
             sample_torch_load ''plain.pth'' = Inr l2 \<and> unwrap_state_dict l2 = Dict sample_state_dict)"
    by (simp add: sample_state_dict_def sample_torch_load_def startswith_def
        unwrap_state_dict_def add_module_prefix_def)
  from plain [THEN conjunct2, THEN conjunct2, THEN conjunct2, THEN conjunct2, THEN conjunct2,
      THEN conjunct2, THEN mp, OF h]
  have 1: "load_model sample_torch_load Inr ''parallel.pth'' = Inr sample_state_dict"
    and 2: "load_model sample_torch_load Inr ''plain.pth'' = Inr sample_state_dict"
    by simp_all
  from 0 3 4 1 2 show ?thesis by (intro conjI)
qed

text \<open>
  The claim as stated fails for two dictionaries. Where \<^verbatim>\<open>module.a\<close> and \<^verbatim>\<open>a\<close> are both
  keys, the value of \<^verbatim>\<open>module.a\<close> is lost: the later item replaces it. Where a key
  starts with \<^verbatim>\<open>module.\<close> already, the dictionary and its prefixed copy normalize to
  different dictionaries, since only one prefix is removed.
\<close>

theorem load_model_strips_module_prefix_counterexample:
  "distinct (map fst sample_clash_dict) \<and>
   map_of sample_clash_dict (''module.'' @ ''a'') = Some (Tensor 1) \<and>
   new_checkpoint sample_clash_dict = [(''a'', Tensor 2)] \<and>
   new_checkpoint (add_module_prefix sample_twice_dict) = [(''module.a'', Tensor 1)] \<and>
   new_checkpoint sample_twice_dict = [(''a'', Tensor 1)]"
  by (simp add: sample_clash_dict_def sample_twice_dict_def new_checkpoint_def
      add_module_prefix_def strip_module_def startswith_def)

end
